theory Spec2Isabelle
  imports Complex_Main "HOL-Library.Sublist"
begin

section \<open>Numbers, strings and the runtime\<close>

text \<open>
  A TypeScript \<^verbatim>\<open>number\<close> is a double: not-a-number, the two infinities, or a finite
  value. The comparisons \<^verbatim>\<open><\<close> and \<^verbatim>\<open>>\<close> are exact on doubles and are false as soon as
  one side is not-a-number; they are modelled here. Arithmetic (which rounds) and the
  conversions between numbers and strings belong to the runtime and are parameters.
\<close>

datatype number = NaN | NegInf | Fin real | PosInf

fun js_lt :: "number \<Rightarrow> number \<Rightarrow> bool" where
  "js_lt NaN y = False"
| "js_lt x NaN = False"
| "js_lt NegInf NegInf = False"
| "js_lt NegInf y = True"
| "js_lt (Fin a) (Fin b) = (a < b)"
| "js_lt (Fin a) PosInf = True"
| "js_lt (Fin a) NegInf = False"
| "js_lt PosInf y = False"

definition js_gt :: "number \<Rightarrow> number \<Rightarrow> bool" where
  "js_gt x y = js_lt y x"

record Runtime =
  numberToString :: "number \<Rightarrow> string"
  toNumber :: "string \<Rightarrow> number"
  js_sub :: "number \<Rightarrow> number \<Rightarrow> number"
  js_div :: "number \<Rightarrow> number \<Rightarrow> number"

datatype exn = Exn string

type_synonym PublicKey = string

section \<open>trading-protection.ts\<close>

record TokenAmount =
  raw :: string

record TradingProtection =
  maxSlippage :: number
  maxTradeSize :: number
  minLiquidity :: number
  mockLiquidity :: number
  mockPriceImpact :: number

text \<open>The field initialisers of the class.\<close>

definition newTradingProtection :: TradingProtection where
  "newTradingProtection =
     \<lparr>maxSlippage = Fin 1, maxTradeSize = Fin 1000, minLiquidity = Fin 100,
      mockLiquidity = Fin 1000, mockPriceImpact = Fin (1 / 2)\<rparr>"

text \<open>
  Each of the three helpers wraps its body in a \<^verbatim>\<open>try\<close>. Whether a body raises is
  decided outside the class (by the objects it is handed), so it is an input of the
  model. The logger is taken to be total.
\<close>

record Faults =
  amountFault :: bool
  liquidityFault :: bool
  impactFault :: bool

definition noFaults :: Faults where
  "noFaults = \<lparr>amountFault = False, liquidityFault = False, impactFault = False\<rparr>"

text \<open>\<^verbatim>\<open>getAmountInSol\<close>: the handler logs and rethrows.\<close>

definition getAmountInSol :: "Runtime \<Rightarrow> Faults \<Rightarrow> TokenAmount \<Rightarrow> exn + number" where
  "getAmountInSol rt fl amount =
     (if amountFault fl then Inl (Exn ''Error converting amount to SOL'')
      else Inr (js_div rt (toNumber rt (raw amount)) (Fin (10 ^ 9))))"

text \<open>\<^verbatim>\<open>getTokenLiquidity\<close>: the handler returns 0 instead of throwing.\<close>

definition getTokenLiquidity :: "Faults \<Rightarrow> TradingProtection \<Rightarrow> number" where
  "getTokenLiquidity fl tp = (if liquidityFault fl then Fin 0 else mockLiquidity tp)"

text \<open>\<^verbatim>\<open>calculatePriceImpact\<close>: the handler returns 100.\<close>

definition calculatePriceImpact :: "Faults \<Rightarrow> TradingProtection \<Rightarrow> number" where
  "calculatePriceImpact fl tp = (if impactFault fl then Fin 100 else mockPriceImpact tp)"

record TradeSafetyResult =
  safe :: bool
  reason :: "string option"

definition tradeSizeReason :: "Runtime \<Rightarrow> number \<Rightarrow> number \<Rightarrow> string" where
  "tradeSizeReason rt amountInSol maxSize =
     ''Trade size '' @ numberToString rt amountInSol @ '' SOL exceeds maximum allowed ''
       @ numberToString rt maxSize @ '' SOL''"

definition liquidityReason :: "Runtime \<Rightarrow> number \<Rightarrow> number \<Rightarrow> string" where
  "liquidityReason rt liquidity minLiq =
     ''Insufficient liquidity: '' @ numberToString rt liquidity @ '' SOL < ''
       @ numberToString rt minLiq @ '' SOL''"

definition priceImpactReason :: "Runtime \<Rightarrow> number \<Rightarrow> number \<Rightarrow> string" where
  "priceImpactReason rt priceImpact maxSlip =
     ''Price impact '' @ numberToString rt priceImpact @ ''% exceeds maximum allowed ''
       @ numberToString rt maxSlip @ ''%''"

definition rejected :: "string \<Rightarrow> TradeSafetyResult" where
  "rejected msg = \<lparr>safe = False, reason = Some msg\<rparr>"

definition accepted :: TradeSafetyResult where
  "accepted = \<lparr>safe = True, reason = None\<rparr>"

text \<open>
  The body of the \<^verbatim>\<open>try\<close> of \<^verbatim>\<open>checkTradeSafety\<close>. Beside the outcome it returns the
  lookups it has awaited, in order, so that which checks were evaluated is visible.
\<close>

datatype lookup = LiquidityLookup | PriceImpactLookup

definition checkTradeSafety_body ::
  "Runtime \<Rightarrow> Faults \<Rightarrow> TradingProtection \<Rightarrow> PublicKey \<Rightarrow> TokenAmount \<Rightarrow> number
     \<Rightarrow> (exn + TradeSafetyResult) \<times> lookup list" where
  "checkTradeSafety_body rt fl tp tokenMint amount expectedPrice =
     (case getAmountInSol rt fl amount of
        Inl e \<Rightarrow> (Inl e, [])
      | Inr amountInSol \<Rightarrow>
          if js_gt amountInSol (maxTradeSize tp)
          then (Inr (rejected (tradeSizeReason rt amountInSol (maxTradeSize tp))), [])
          else
            let liquidity = getTokenLiquidity fl tp in
            if js_lt liquidity (minLiquidity tp)
            then (Inr (rejected (liquidityReason rt liquidity (minLiquidity tp))),
                  [LiquidityLookup])
            else
              let priceImpact = calculatePriceImpact fl tp in
              if js_gt priceImpact (maxSlippage tp)
              then (Inr (rejected (priceImpactReason rt priceImpact (maxSlippage tp))),
                    [LiquidityLookup, PriceImpactLookup])
              else (Inr accepted, [LiquidityLookup, PriceImpactLookup]))"

text \<open>\<^verbatim>\<open>checkTradeSafety\<close>: the handler of the outer \<^verbatim>\<open>try\<close> turns any exception into a rejection.\<close>

definition checkTradeSafety ::
  "Runtime \<Rightarrow> Faults \<Rightarrow> TradingProtection \<Rightarrow> PublicKey \<Rightarrow> TokenAmount \<Rightarrow> number
     \<Rightarrow> TradeSafetyResult \<times> lookup list" where
  "checkTradeSafety rt fl tp tokenMint amount expectedPrice =
     (case checkTradeSafety_body rt fl tp tokenMint amount expectedPrice of
        (Inl e, tr) \<Rightarrow> (rejected ''Failed to check trade safety'', tr)
      | (Inr r, tr) \<Rightarrow> (r, tr))"

definition setMaxSlippage :: "TradingProtection \<Rightarrow> number \<Rightarrow> TradingProtection" where
  "setMaxSlippage tp slippage = tp\<lparr>maxSlippage := slippage\<rparr>"

definition setMaxTradeSize :: "TradingProtection \<Rightarrow> number \<Rightarrow> TradingProtection" where
  "setMaxTradeSize tp sz = tp\<lparr>maxTradeSize := sz\<rparr>"

definition setMinLiquidity :: "TradingProtection \<Rightarrow> number \<Rightarrow> TradingProtection" where
  "setMinLiquidity tp liquidity = tp\<lparr>minLiquidity := liquidity\<rparr>"

definition setMockLiquidity :: "TradingProtection \<Rightarrow> number \<Rightarrow> TradingProtection" where
  "setMockLiquidity tp liquidity = tp\<lparr>mockLiquidity := liquidity\<rparr>"

definition setMockPriceImpact :: "TradingProtection \<Rightarrow> number \<Rightarrow> TradingProtection" where
  "setMockPriceImpact tp priceImpact = tp\<lparr>mockPriceImpact := priceImpact\<rparr>"

section \<open>The tracked token accounts\<close>

record MarketQueues =
  bids :: PublicKey
  asks :: PublicKey
  eventQueue :: PublicKey

record MinimalMarketLayoutV3 = MarketQueues +
  baseMint :: PublicKey

record LiquidityStateV4 =
  poolBaseMint :: PublicKey
  poolMarketId :: PublicKey

record LiquidityPoolKeys =
  keysId :: PublicKey
  keysBaseMint :: PublicKey
  keysMarketId :: PublicKey
  marketBids :: PublicKey
  marketAsks :: PublicKey
  marketEventQueue :: PublicKey
  version :: nat

text \<open>
  \<^verbatim>\<open>MinimalTokenAccountData\<close>. The market kept in it is built from the three queues
  alone, hence \<open>MarketQueues\<close>.
\<close>

record MinimalTokenAccountData =
  mint :: PublicKey
  address :: PublicKey
  buyValue :: "number option"
  poolKeys :: "LiquidityPoolKeys option"
  market :: "MarketQueues option"

text \<open>\<^verbatim>\<open>existingTokenAccounts\<close>, keyed by the mint's string.\<close>

type_synonym tokenAccounts = "string \<rightharpoonup> MinimalTokenAccountData"

text \<open>
  \<^verbatim>\<open>init\<close> enters every token account of the wallet with its mint and address only.
  An account of the wallet is given as the pair (mint, pubkey).
\<close>

definition initTokenAccounts :: "(PublicKey \<times> PublicKey) list \<Rightarrow> tokenAccounts \<Rightarrow> tokenAccounts" where
  "initTokenAccounts tas accounts =
     foldl (\<lambda>m ta. m(fst ta \<mapsto>
              \<lparr>mint = fst ta, address = snd ta, buyValue = None, poolKeys = None, market = None\<rparr>))
       accounts tas"

text \<open>\<^verbatim>\<open>saveTokenAccount\<close>; \<open>ata\<close> is \<^verbatim>\<open>getAssociatedTokenAddressSync\<close> for the wallet.\<close>

definition saveTokenAccount ::
  "(PublicKey \<Rightarrow> PublicKey) \<Rightarrow> tokenAccounts \<Rightarrow> PublicKey \<Rightarrow> MinimalMarketLayoutV3
     \<Rightarrow> MinimalTokenAccountData \<times> tokenAccounts" where
  "saveTokenAccount ata accounts mnt accountData =
     (let tokenAccount =
        \<lparr>mint = mnt, address = ata mnt, buyValue = None, poolKeys = None,
         market = Some \<lparr>bids = bids accountData, asks = asks accountData,
                        eventQueue = eventQueue accountData\<rparr>\<rparr>
      in (tokenAccount, accounts(mnt \<mapsto> tokenAccount)))"

text \<open>
  \<^verbatim>\<open>processOpenBookMarket\<close>: \<open>decoded\<close> is the outcome of decoding the account data; a
  failure is logged and swallowed.
\<close>

definition processOpenBookMarket ::
  "(PublicKey \<Rightarrow> PublicKey) \<Rightarrow> tokenAccounts \<Rightarrow> exn + MinimalMarketLayoutV3 \<Rightarrow> tokenAccounts" where
  "processOpenBookMarket ata accounts decoded =
     (case decoded of
        Inl e \<Rightarrow> accounts
      | Inr accountData \<Rightarrow>
          if accounts (baseMint accountData) \<noteq> None then accounts
          else snd (saveTokenAccount ata accounts (baseMint accountData) accountData))"

text \<open>
  \<^verbatim>\<open>createPoolKeys\<close> reads the queues of the market it is given; the caller passes
  \<^verbatim>\<open>tokenAccount.market!\<close>, and reading a field of an absent market raises.
\<close>

definition createPoolKeys ::
  "PublicKey \<Rightarrow> LiquidityStateV4 \<Rightarrow> MarketQueues option \<Rightarrow> exn + LiquidityPoolKeys" where
  "createPoolKeys ident accountData minimalMarketLayoutV3 =
     (case minimalMarketLayoutV3 of
        None \<Rightarrow> Inl (Exn ''TypeError'')
      | Some m \<Rightarrow>
          Inr \<lparr>keysId = ident, keysBaseMint = poolBaseMint accountData,
               keysMarketId = poolMarketId accountData, marketBids = bids m,
               marketAsks = asks m, marketEventQueue = eventQueue m, version = 4\<rparr>)"

section \<open>retry\<close>

text \<open>
  \<^verbatim>\<open>retry\<close> calls \<open>fn\<close>; when the call raises and \<open>retries\<close> is positive it sleeps and
  calls itself with one retry fewer. \<open>fn\<close> is given by the outcome of its k-th call
  (counted from 0); the result comes with the number of calls made so far and the
  sleeps taken, in order.
\<close>

function retry :: "(nat \<Rightarrow> exn + 'a) \<Rightarrow> int \<Rightarrow> nat \<Rightarrow> nat \<Rightarrow> (exn + 'a) \<times> nat \<times> nat list" where
  "retry fn retries retryIntervalMs calls =
     (case fn calls of
        Inr v \<Rightarrow> (Inr v, Suc calls, [])
      | Inl e \<Rightarrow>
          if retries \<le> 0 then (Inl e, Suc calls, [])
          else (case retry fn (retries - 1) retryIntervalMs (Suc calls) of
                  (r, n, sl) \<Rightarrow> (r, n, retryIntervalMs # sl)))"
  by pat_completeness auto
termination
  by (relation "measure (\<lambda>(fn, retries, retryIntervalMs, calls). nat retries)") auto

declare retry.simps [simp del]

section \<open>buy\<close>

text \<open>
  What the collaborators answer during one call of \<^verbatim>\<open>buy\<close>: the market fetch, the
  construction of the transaction (swap instruction, block hash, compile, sign,
  serialise), each call of \<^verbatim>\<open>sendRawTransaction\<close>, and the confirmation, whose value
  says whether \<^verbatim>\<open>confirmation.value.err\<close> is set.
\<close>

record BuyWorld =
  getMinimalMarketV3 :: "exn + MinimalMarketLayoutV3"
  buildTransaction :: "exn + unit"
  sendRawTransaction :: "nat \<Rightarrow> exn + string"
  confirmTransaction :: "exn + bool"

record BuyOutcome =
  returned :: "exn + unit"
  accountsAfter :: tokenAccounts
  submissions :: nat
  sleeps :: "nat list"
  confirmations :: nat

definition buyEnds ::
  "exn + unit \<Rightarrow> tokenAccounts \<Rightarrow> nat \<Rightarrow> nat list \<Rightarrow> nat \<Rightarrow> BuyOutcome" where
  "buyEnds r accounts n sl c =
     \<lparr>returned = r, accountsAfter = accounts, submissions = n, sleeps = sl, confirmations = c\<rparr>"

text \<open>
  \<^verbatim>\<open>buy\<close>: every exception is logged and rethrown, so it is the returned value here.
  Writing \<^verbatim>\<open>tokenAccount.poolKeys\<close> changes the object held by the map.
\<close>

definition buy ::
  "Runtime \<Rightarrow> Faults \<Rightarrow> TradingProtection \<Rightarrow> BuyWorld \<Rightarrow> (PublicKey \<Rightarrow> PublicKey) \<Rightarrow> TokenAmount
     \<Rightarrow> tokenAccounts \<Rightarrow> PublicKey \<Rightarrow> LiquidityStateV4 \<Rightarrow> BuyOutcome" where
  "buy rt fl tp w ata quoteAmount accounts accountId accountData =
     (case (case accounts (poolBaseMint accountData) of
              Some tokenAccount \<Rightarrow> Inr (tokenAccount, accounts)
            | None \<Rightarrow>
                (case getMinimalMarketV3 w of
                   Inl e \<Rightarrow> Inl e
                 | Inr m \<Rightarrow> Inr (saveTokenAccount ata accounts (poolBaseMint accountData) m))) of
        Inl e \<Rightarrow> buyEnds (Inl e) accounts 0 [] 0
      | Inr (tokenAccount, accounts1) \<Rightarrow>
          let safetyCheck =
            fst (checkTradeSafety rt fl tp (poolBaseMint accountData) quoteAmount (Fin 0))
          in
          if \<not> safe safetyCheck then buyEnds (Inr ()) accounts1 0 [] 0
          else
            (case createPoolKeys accountId accountData (market tokenAccount) of
               Inl e \<Rightarrow> buyEnds (Inl e) accounts1 0 [] 0
             | Inr keys \<Rightarrow>
                 let accounts2 =
                   accounts1(poolBaseMint accountData \<mapsto> tokenAccount\<lparr>poolKeys := Some keys\<rparr>)
                 in
                 (case buildTransaction w of
                    Inl e \<Rightarrow> buyEnds (Inl e) accounts2 0 [] 0
                  | Inr u \<Rightarrow>
                      (case retry (sendRawTransaction w) 3 1000 0 of
                         (Inl e, n, sl) \<Rightarrow> buyEnds (Inl e) accounts2 n sl 0
                       | (Inr signature, n, sl) \<Rightarrow>
                           (case confirmTransaction w of
                              Inl e \<Rightarrow> buyEnds (Inl e) accounts2 n sl 1
                            | Inr err \<Rightarrow>
                                if err
                                then buyEnds (Inl (Exn ''Transaction failed'')) accounts2 n sl 1
                                else buyEnds (Inr ()) accounts2 n sl 1)))))"

text \<open>
  The steps of \<^verbatim>\<open>buy\<close> before the submission all succeed: a market is at hand (kept with
  the tracked account, or fetched for an untracked mint), the trade passes the safety
  check, and the transaction is built.
\<close>

definition reachesSubmission ::
  "Runtime \<Rightarrow> Faults \<Rightarrow> TradingProtection \<Rightarrow> BuyWorld \<Rightarrow> TokenAmount \<Rightarrow> tokenAccounts
     \<Rightarrow> LiquidityStateV4 \<Rightarrow> bool" where
  "reachesSubmission rt fl tp w quoteAmount accounts accountData \<longleftrightarrow>
     (case accounts (poolBaseMint accountData) of
        Some tokenAccount \<Rightarrow> market tokenAccount \<noteq> None
      | None \<Rightarrow> \<not> isl (getMinimalMarketV3 w))
     \<and> safe (fst (checkTradeSafety rt fl tp (poolBaseMint accountData) quoteAmount (Fin 0)))
     \<and> \<not> isl (buildTransaction w)"

section \<open>Every writer of the token-account map\<close>

text \<open>
  \<^verbatim>\<open>existingTokenAccounts\<close> starts empty and is written in three places only: the loop of
  \<^verbatim>\<open>init\<close>, \<^verbatim>\<open>saveTokenAccount\<close> (called by \<^verbatim>\<open>processOpenBookMarket\<close> and by \<^verbatim>\<open>buy\<close>), and
  the assignment of \<^verbatim>\<open>poolKeys\<close> in \<^verbatim>\<open>buy\<close>. A history of the map is a list of such calls.
\<close>

datatype accountsWriter =
    InitCall "(PublicKey \<times> PublicKey) list"
  | MarketCall "exn + MinimalMarketLayoutV3"
  | BuyCall Runtime Faults TradingProtection BuyWorld TokenAmount PublicKey LiquidityStateV4

fun applyWriter :: "(PublicKey \<Rightarrow> PublicKey) \<Rightarrow> tokenAccounts \<Rightarrow> accountsWriter \<Rightarrow> tokenAccounts" where
  "applyWriter ata accounts (InitCall tas) = initTokenAccounts tas accounts"
| "applyWriter ata accounts (MarketCall decoded) = processOpenBookMarket ata accounts decoded"
| "applyWriter ata accounts (BuyCall rt fl tp w quoteAmount accountId accountData) =
     accountsAfter (buy rt fl tp w ata quoteAmount accounts accountId accountData)"

definition accountsAfterWrites :: "(PublicKey \<Rightarrow> PublicKey) \<Rightarrow> accountsWriter list \<Rightarrow> tokenAccounts" where
  "accountsAfterWrites ata ws = foldl (applyWriter ata) Map.empty ws"

text \<open>No entry of the map carries a \<^verbatim>\<open>buyValue\<close>.\<close>

definition noBuyValue :: "tokenAccounts \<Rightarrow> bool" where
  "noBuyValue m \<longleftrightarrow> (\<forall>k ta. m k = Some ta \<longrightarrow> buyValue ta = None)"

section \<open>sell\<close>

datatype BigNumberish = AmountString string | AmountNumber number | AmountBigint int

record SellConfig =
  TAKE_PROFIT :: number
  STOP_LOSS :: number
  MAX_SELL_RETRIES :: number

text \<open>
  The part of an attempt from the swap instruction to the confirmation either raises,
  or is confirmed with \<^verbatim>\<open>confirmation.value.err\<close> set, or is confirmed.
\<close>

datatype SwapOutcome = SwapRaises | ConfirmedWithError | Confirmed

text \<open>
  \<^verbatim>\<open>retries++\<close>: the counter is a double holding a natural number. Adding 1 is exact
  below \<open>2\<^sup>5\<^sup>3\<close>; at \<open>2\<^sup>5\<^sup>3\<close> the sum is not a double and rounds back to \<open>2\<^sup>5\<^sup>3\<close>, so the counter
  stays there.
\<close>

definition js_increment :: "nat \<Rightarrow> nat" where
  "js_increment n = (if n < 2 ^ 53 then Suc n else n)"

text \<open>
  The \<^verbatim>\<open>do\<close>-\<^verbatim>\<open>while\<close> loop of \<^verbatim>\<open>sell\<close>, entered at its body with the retry counter and
  the number of transactions built so far; \<open>swaps k\<close> is the outcome of the k-th
  transaction of the call. \<^verbatim>\<open>continue\<close> goes to the loop condition, as does the handler
  after counting a retry. The result is the returned value and the number of
  transactions built; a loop that never leaves has the value \<open>None\<close>.

  The map is read anew in every iteration, and other handlers may run while an attempt
  awaits the network. They cannot change what the loop reads: once \<^verbatim>\<open>init\<close> is over an
  entry is never removed or replaced (\<^verbatim>\<open>saveTokenAccount\<close> is called for absent mints
  only), nothing clears \<^verbatim>\<open>poolKeys\<close> or writes \<^verbatim>\<open>buyValue\<close>, and the branch without pool
  keys awaits nothing at all. So one map serves all iterations of a call.
\<close>

partial_function (option) sell_loop ::
  "Runtime \<Rightarrow> SellConfig \<Rightarrow> (nat \<Rightarrow> SwapOutcome) \<Rightarrow> tokenAccounts \<Rightarrow> PublicKey \<Rightarrow> BigNumberish
     \<Rightarrow> number \<Rightarrow> nat \<Rightarrow> nat \<Rightarrow> (bool \<times> nat) option" where
  "sell_loop rt cfg swaps accounts mnt amount val retries built =
     (case accounts mnt of
        None \<Rightarrow> Some (True, built)
      | Some tokenAccount \<Rightarrow>
          (case poolKeys tokenAccount of
             None \<Rightarrow>
               if js_lt (Fin (real retries)) (MAX_SELL_RETRIES cfg)
               then sell_loop rt cfg swaps accounts mnt amount val retries built
               else Some (True, built)
           | Some keys \<Rightarrow>
               if amount = AmountNumber (Fin 0) then Some (True, built)
               else
                 (case buyValue tokenAccount of
                    None \<Rightarrow> Some (True, built)
                  | Some bv \<Rightarrow>
                      let netChange = js_div rt (js_sub rt val bv) bv in
                      if js_gt netChange (STOP_LOSS cfg) \<and> js_lt netChange (TAKE_PROFIT cfg)
                      then Some (False, built)
                      else
                        (case swaps built of
                           SwapRaises \<Rightarrow>
                             if js_lt (Fin (real (js_increment retries))) (MAX_SELL_RETRIES cfg)
                             then sell_loop rt cfg swaps accounts mnt amount val
                                    (js_increment retries) (Suc built)
                             else Some (True, Suc built)
                         | ConfirmedWithError \<Rightarrow>
                             if js_lt (Fin (real retries)) (MAX_SELL_RETRIES cfg)
                             then sell_loop rt cfg swaps accounts mnt amount val
                                    retries (Suc built)
                             else Some (True, Suc built)
                         | Confirmed \<Rightarrow> Some (True, Suc built)))))"

definition sell ::
  "Runtime \<Rightarrow> SellConfig \<Rightarrow> (nat \<Rightarrow> SwapOutcome) \<Rightarrow> tokenAccounts \<Rightarrow> PublicKey \<Rightarrow> PublicKey
     \<Rightarrow> BigNumberish \<Rightarrow> number \<Rightarrow> (bool \<times> nat) option" where
  "sell rt cfg swaps accounts accountId mnt amount val =
     sell_loop rt cfg swaps accounts mnt amount val 0 0"

section \<open>The account-change handlers of runListener\<close>

record ListenerState =
  existingLiquidityPools :: "string set"
  existingOpenBookMarkets :: "string set"
  poolsDispatched :: "string list"
  marketsDispatched :: "string list"

definition startState :: ListenerState where
  "startState =
     \<lparr>existingLiquidityPools = {}, existingOpenBookMarkets = {},
      poolsDispatched = [], marketsDispatched = []\<rparr>"

text \<open>
  A pool notification carries the account identity and the outcome of decoding the
  pool's open time; a market notification carries the account identity. The handlers
  hand the account to \<^verbatim>\<open>processRaydiumPool\<close> and \<^verbatim>\<open>processOpenBookMarket\<close>; the state
  records these calls in order.
\<close>

datatype Notification = PoolChange PublicKey "exn + number" | MarketChange PublicKey

definition onPoolChange :: "number \<Rightarrow> PublicKey \<Rightarrow> exn + number \<Rightarrow> ListenerState \<Rightarrow> ListenerState" where
  "onPoolChange runTimestamp key decoded st =
     (case decoded of
        Inl e \<Rightarrow> st
      | Inr poolOpenTime \<Rightarrow>
          let existing = key \<in> existingLiquidityPools st in
          if js_gt poolOpenTime runTimestamp \<and> \<not> existing
          then st\<lparr>existingLiquidityPools := insert key (existingLiquidityPools st),
                  poolsDispatched := poolsDispatched st @ [key]\<rparr>
          else st)"

definition onMarketChange :: "PublicKey \<Rightarrow> ListenerState \<Rightarrow> ListenerState" where
  "onMarketChange key st =
     (let existing = key \<in> existingOpenBookMarkets st in
      if \<not> existing
      then st\<lparr>existingOpenBookMarkets := insert key (existingOpenBookMarkets st),
              marketsDispatched := marketsDispatched st @ [key]\<rparr>
      else st)"

fun notify :: "number \<Rightarrow> ListenerState \<Rightarrow> Notification \<Rightarrow> ListenerState" where
  "notify runTimestamp st (PoolChange key decoded) = onPoolChange runTimestamp key decoded st"
| "notify runTimestamp st (MarketChange key) = onMarketChange key st"

definition runListener :: "number \<Rightarrow> Notification list \<Rightarrow> ListenerState" where
  "runListener runTimestamp ns = foldl (notify runTimestamp) startState ns"

text \<open>
  What the two handlers maintain: each set holds exactly the identities handed on so far,
  and none was handed on twice.
\<close>

definition dispatchInv :: "ListenerState \<Rightarrow> bool" where
  "dispatchInv st \<longleftrightarrow>
     distinct (poolsDispatched st) \<and> set (poolsDispatched st) = existingLiquidityPools st
     \<and> distinct (marketsDispatched st) \<and> set (marketsDispatched st) = existingOpenBookMarkets st"

section \<open>Worked-example values and the stated invariant\<close>

text \<open>The configuration invariant of the specification: the three thresholds are strictly positive.\<close>

definition thresholdsPositive :: "TradingProtection \<Rightarrow> bool" where
  "thresholdsPositive tp \<longleftrightarrow>
     js_gt (maxTradeSize tp) (Fin 0) \<and> js_gt (minLiquidity tp) (Fin 0) \<and> js_gt (maxSlippage tp) (Fin 0)"

text \<open>
  A runtime for the worked examples: exact arithmetic on finite values (no rounding, and a
  zero divisor counts as positive zero), one parsed literal, and digits left unrendered.
\<close>

fun exact_sub :: "number \<Rightarrow> number \<Rightarrow> number" where
  "exact_sub (Fin a) (Fin b) = Fin (a - b)"
| "exact_sub (Fin a) NegInf = PosInf"
| "exact_sub (Fin a) PosInf = NegInf"
| "exact_sub (Fin a) NaN = NaN"
| "exact_sub NaN y = NaN"
| "exact_sub NegInf (Fin b) = NegInf"
| "exact_sub NegInf PosInf = NegInf"
| "exact_sub NegInf y = NaN"
| "exact_sub PosInf (Fin b) = PosInf"
| "exact_sub PosInf NegInf = PosInf"
| "exact_sub PosInf y = NaN"

fun exact_div :: "number \<Rightarrow> number \<Rightarrow> number" where
  "exact_div (Fin a) (Fin b) =
     (if b = 0 then (if a = 0 then NaN else if 0 < a then PosInf else NegInf) else Fin (a / b))"
| "exact_div (Fin a) NegInf = Fin 0"
| "exact_div (Fin a) PosInf = Fin 0"
| "exact_div PosInf (Fin b) = (if b < 0 then NegInf else PosInf)"
| "exact_div NegInf (Fin b) = (if b < 0 then PosInf else NegInf)"
| "exact_div NaN y = NaN"
| "exact_div NegInf y = NaN"
| "exact_div PosInf y = NaN"
| "exact_div (Fin a) NaN = NaN"

definition exampleRuntime :: Runtime where
  "exampleRuntime =
     \<lparr>numberToString =
        (\<lambda>x. case x of NaN \<Rightarrow> ''NaN'' | NegInf \<Rightarrow> ''-Infinity'' | PosInf \<Rightarrow> ''Infinity''
                | Fin r \<Rightarrow> ''#''),
      toNumber = (\<lambda>s. if s = ''100000000'' then Fin 100000000 else NaN),
      js_sub = exact_sub,
      js_div = exact_div\<rparr>"

text \<open>
  The same runtime with the decimal rendering of the numbers that the worked examples
  print.
\<close>

definition exampleRendering :: "number \<Rightarrow> string" where
  "exampleRendering x =
     (if x = Fin 0 then ''0'' else if x = Fin 1 then ''1'' else if x = Fin 100 then ''100''
      else if x = Fin 1000 then ''1000'' else if x = Fin 2000 then ''2000''
      else if x = Fin (1 / 10) then ''0.1'' else if x = Fin (1 / 2) then ''0.5''
      else ''#'')"

definition tableRuntime :: Runtime where
  "tableRuntime = exampleRuntime\<lparr>numberToString := exampleRendering\<rparr>"

text \<open>A sell configuration, a position and the answers of the collaborators for the worked examples.\<close>

definition exampleConfig :: SellConfig where
  "exampleConfig = \<lparr>TAKE_PROFIT = Fin 50, STOP_LOSS = Fin (- 10), MAX_SELL_RETRIES = Fin 3\<rparr>"

definition exampleKeys :: LiquidityPoolKeys where
  "exampleKeys =
     \<lparr>keysId = ''pool'', keysBaseMint = ''mint'', keysMarketId = ''market'', marketBids = ''bids'',
      marketAsks = ''asks'', marketEventQueue = ''queue'', version = 4\<rparr>"

definition examplePosition :: "number option \<Rightarrow> LiquidityPoolKeys option \<Rightarrow> tokenAccounts" where
  "examplePosition bv keys =
     [''mint'' \<mapsto> \<lparr>mint = ''mint'', address = ''ata'', buyValue = bv, poolKeys = keys, market = None\<rparr>]"

definition exampleMarket :: MinimalMarketLayoutV3 where
  "exampleMarket = \<lparr>bids = ''bids'', asks = ''asks'', eventQueue = ''queue'', baseMint = ''mint''\<rparr>"

definition examplePool :: LiquidityStateV4 where
  "examplePool = \<lparr>poolBaseMint = ''mint'', poolMarketId = ''market''\<rparr>"

definition exampleBuyWorld :: "(nat \<Rightarrow> exn + string) \<Rightarrow> exn + bool \<Rightarrow> BuyWorld" where
  "exampleBuyWorld send confirm =
     \<lparr>getMinimalMarketV3 = Inr exampleMarket, buildTransaction = Inr (),
      sendRawTransaction = send, confirmTransaction = confirm\<rparr>"

section \<open>Properties\<close>

subsection \<open>Auxiliary facts\<close>

lemma checkTradeSafety_cases:
  assumes "getAmountInSol rt fl amount = Inr a"
  shows "checkTradeSafety rt fl tp mnt amount p =
     (if js_gt a (maxTradeSize tp)
      then (rejected (tradeSizeReason rt a (maxTradeSize tp)), [])
      else if js_lt (getTokenLiquidity fl tp) (minLiquidity tp)
      then (rejected (liquidityReason rt (getTokenLiquidity fl tp) (minLiquidity tp)),
            [LiquidityLookup])
      else if js_gt (calculatePriceImpact fl tp) (maxSlippage tp)
      then (rejected (priceImpactReason rt (calculatePriceImpact fl tp) (maxSlippage tp)),
            [LiquidityLookup, PriceImpactLookup])
      else (accepted, [LiquidityLookup, PriceImpactLookup]))"
  using assms by (simp add: checkTradeSafety_def checkTradeSafety_body_def Let_def)

lemma checkTradeSafety_raise:
  assumes "getAmountInSol rt fl amount = Inl e"
  shows "checkTradeSafety rt fl tp mnt amount p = (rejected ''Failed to check trade safety'', [])"
  using assms by (simp add: checkTradeSafety_def checkTradeSafety_body_def)

lemma tradeSizeReason_includes:
  "sublist ''exceeds maximum allowed'' (tradeSizeReason rt a m)"
  unfolding tradeSizeReason_def sublist_def
  by (rule exI[of _ "''Trade size '' @ numberToString rt a @ '' SOL ''"], rule exI[of _ "'' '' @ numberToString rt m @ '' SOL''"]) simp

lemma tradeSizeReason_neq_liquidityReason:
  "tradeSizeReason rt a m \<noteq> liquidityReason rt l k"
  by (simp add: tradeSizeReason_def liquidityReason_def)

lemma sell_loop_untracked:
  "accounts mnt = None \<Longrightarrow> sell_loop rt cfg swaps accounts mnt amount val retries built = Some (True, built)"
  by (subst sell_loop.simps) simp

lemma sell_loop_zero:
  "accounts mnt = Some ta \<Longrightarrow> poolKeys ta = Some keys \<Longrightarrow>
   sell_loop rt cfg swaps accounts mnt (AmountNumber (Fin 0)) val retries built = Some (True, built)"
  by (subst sell_loop.simps) simp

lemma sell_loop_no_buyValue:
  "accounts mnt = Some ta \<Longrightarrow> poolKeys ta = Some keys \<Longrightarrow> buyValue ta = None \<Longrightarrow>
   sell_loop rt cfg swaps accounts mnt amount val retries built = Some (True, built)"
  by (subst sell_loop.simps) simp

lemma sell_loop_hold:
  "accounts mnt = Some ta \<Longrightarrow> poolKeys ta = Some keys \<Longrightarrow> amount \<noteq> AmountNumber (Fin 0) \<Longrightarrow>
   buyValue ta = Some bv \<Longrightarrow>
   js_gt (js_div rt (js_sub rt val bv) bv) (STOP_LOSS cfg) \<Longrightarrow>
   js_lt (js_div rt (js_sub rt val bv) bv) (TAKE_PROFIT cfg) \<Longrightarrow>
   sell_loop rt cfg swaps accounts mnt amount val retries built = Some (False, built)"
  by (subst sell_loop.simps) simp

lemma sell_loop_no_keys_exit:
  "accounts mnt = Some ta \<Longrightarrow> poolKeys ta = None \<Longrightarrow> \<not> js_lt (Fin (real retries)) (MAX_SELL_RETRIES cfg) \<Longrightarrow>
   sell_loop rt cfg swaps accounts mnt amount val retries built = Some (True, built)"
  by (subst sell_loop.simps) simp

lemma sell_loop_no_keys_spins:
  assumes "accounts mnt = Some ta" "poolKeys ta = None"
    "js_lt (Fin (real retries)) (MAX_SELL_RETRIES cfg)"
  shows "sell_loop rt cfg swaps accounts mnt amount val retries built = None"
proof (rule ccontr)
  assume "sell_loop rt cfg swaps accounts mnt amount val retries built \<noteq> None"
  then obtain y where y: "sell_loop rt cfg swaps accounts mnt amount val retries built = Some y"
    by auto
  have "\<not> (\<exists>ta. accounts mnt = Some ta \<and> poolKeys ta = None
            \<and> js_lt (Fin (real retries)) (MAX_SELL_RETRIES cfg))"
    apply (rule sell_loop.raw_induct
      [where P = "\<lambda>rt cfg swaps accounts mnt amount val retries built y.
          \<not> (\<exists>ta. accounts mnt = Some ta \<and> poolKeys ta = None
                \<and> js_lt (Fin (real retries)) (MAX_SELL_RETRIES cfg))", OF _ y])
    subgoal premises prems for f rt cfg swaps accounts mnt amount val retries built rta
    proof
      assume "\<exists>ta. accounts mnt = Some ta \<and> poolKeys ta = None
              \<and> js_lt (Fin (real retries)) (MAX_SELL_RETRIES cfg)"
      then obtain ta where spin: "accounts mnt = Some ta" "poolKeys ta = None"
          "js_lt (Fin (real retries)) (MAX_SELL_RETRIES cfg)" by blast
      with prems(2) have "f rt cfg swaps accounts mnt amount val retries built = Some rta"
        by simp
      from prems(1)[OF this] spin show False by blast
    qed
    done
  with assms show False by blast
qed

lemma sell_loop_raise_step:
  assumes "accounts mnt = Some ta" "poolKeys ta = Some keys" "amount \<noteq> AmountNumber (Fin 0)"
    "buyValue ta = Some bv"
    "\<not> (js_gt (js_div rt (js_sub rt val bv) bv) (STOP_LOSS cfg)
        \<and> js_lt (js_div rt (js_sub rt val bv) bv) (TAKE_PROFIT cfg))"
    "swaps built = SwapRaises"
  shows "sell_loop rt cfg swaps accounts mnt amount val retries built =
     (if js_lt (Fin (real (js_increment retries))) (MAX_SELL_RETRIES cfg)
      then sell_loop rt cfg swaps accounts mnt amount val (js_increment retries) (Suc built)
      else Some (True, Suc built))"
  using assms by (subst sell_loop.simps) (auto simp: Let_def)

lemma js_increment_below: "n < 2 ^ 53 \<Longrightarrow> js_increment n = Suc n"
  by (simp add: js_increment_def)

lemma js_increment_bound: "n \<le> 2 ^ 53 \<Longrightarrow> js_increment n \<le> 2 ^ 53"
  by (simp add: js_increment_def)

lemma sell_loop_all_raise:
  assumes "accounts mnt = Some ta" "poolKeys ta = Some keys" "amount \<noteq> AmountNumber (Fin 0)"
    "buyValue ta = Some bv"
    "\<not> (js_gt (js_div rt (js_sub rt val bv) bv) (STOP_LOSS cfg)
        \<and> js_lt (js_div rt (js_sub rt val bv) bv) (TAKE_PROFIT cfg))"
    "\<forall>k. swaps k = SwapRaises"
    "MAX_SELL_RETRIES cfg = Fin m"
    "m \<le> 2 ^ 53"
    "retries < max 1 (nat \<lceil>m\<rceil>)"
  shows "sell_loop rt cfg swaps accounts mnt amount val retries built =
     Some (True, built + (max 1 (nat \<lceil>m\<rceil>) - retries))"
  using assms(9)
proof (induction "max 1 (nat \<lceil>m\<rceil>) - retries" arbitrary: retries built)
  case 0
  then have False by linarith
  then show ?case ..
next
  case (Suc d)
  have "m \<le> real_of_int (2 ^ 53)" using assms(8) by simp
  then have "\<lceil>m\<rceil> \<le> 2 ^ 53" by (simp only: ceiling_le_iff)
  then have "max 1 (nat \<lceil>m\<rceil>) \<le> 2 ^ 53" by simp
  with Suc.prems have "retries < 2 ^ 53" by linarith
  then have inc: "js_increment retries = Suc retries" by (rule js_increment_below)
  have step: "sell_loop rt cfg swaps accounts mnt amount val retries built =
     (if real (Suc retries) < m
      then sell_loop rt cfg swaps accounts mnt amount val (Suc retries) (Suc built)
      else Some (True, Suc built))"
    using sell_loop_raise_step[of accounts mnt ta keys amount bv rt val cfg swaps built retries]
      assms(1-7) by (simp add: inc)
  show ?case
  proof (cases "real (Suc retries) < m")
    case True
    then have "real_of_int (int (Suc retries)) < m" by simp
    then have "int (Suc retries) < \<lceil>m\<rceil>" by (simp only: less_ceiling_iff)
    then have lt: "Suc retries < max 1 (nat \<lceil>m\<rceil>)" by arith
    have "d = max 1 (nat \<lceil>m\<rceil>) - Suc retries" using Suc.hyps(2) by simp
    from Suc.hyps(1)[OF this lt, of "Suc built"] True step lt show ?thesis by simp
  next
    case False
    then have "m \<le> real_of_int (int (Suc retries))" by simp
    then have "\<lceil>m\<rceil> \<le> int (Suc retries)" by (simp only: ceiling_le_iff)
    then have "max 1 (nat \<lceil>m\<rceil>) \<le> Suc retries" by arith
    with Suc.prems have "max 1 (nat \<lceil>m\<rceil>) - retries = 1" by linarith
    with False step show ?thesis by simp
  qed
qed

lemma sell_loop_raise_once:
  assumes "accounts mnt = Some ta" "poolKeys ta = Some keys" "amount \<noteq> AmountNumber (Fin 0)"
    "buyValue ta = Some bv"
    "\<not> (js_gt (js_div rt (js_sub rt val bv) bv) (STOP_LOSS cfg)
        \<and> js_lt (js_div rt (js_sub rt val bv) bv) (TAKE_PROFIT cfg))"
    "swaps built = SwapRaises"
    "MAX_SELL_RETRIES cfg = NaN \<or> MAX_SELL_RETRIES cfg = NegInf"
  shows "sell_loop rt cfg swaps accounts mnt amount val retries built = Some (True, Suc built)"
  using sell_loop_raise_step[of accounts mnt ta keys amount bv rt val cfg swaps built retries]
    assms by auto

lemma sell_loop_raise_forever:
  assumes "accounts mnt = Some ta" "poolKeys ta = Some keys" "amount \<noteq> AmountNumber (Fin 0)"
    "buyValue ta = Some bv"
    "\<not> (js_gt (js_div rt (js_sub rt val bv) bv) (STOP_LOSS cfg)
        \<and> js_lt (js_div rt (js_sub rt val bv) bv) (TAKE_PROFIT cfg))"
    "\<forall>k. swaps k = SwapRaises"
    "MAX_SELL_RETRIES cfg = PosInf \<or> (\<exists>m. MAX_SELL_RETRIES cfg = Fin m \<and> 2 ^ 53 < m)"
    "retries \<le> 2 ^ 53"
  shows "sell_loop rt cfg swaps accounts mnt amount val retries built = None"
proof (rule ccontr)
  assume "sell_loop rt cfg swaps accounts mnt amount val retries built \<noteq> None"
  then obtain y where y: "sell_loop rt cfg swaps accounts mnt amount val retries built = Some y"
    by auto
  have below: "js_lt (Fin (real r)) (MAX_SELL_RETRIES cfg)" if "r \<le> 2 ^ 53" for r :: nat
  proof -
    from that have "real r \<le> real (2 ^ 53)" by (simp only: of_nat_le_iff)
    then have "real r \<le> 2 ^ 53" by simp
    with assms(7) show ?thesis by auto
  qed
  have "\<not> (rt = rt \<and> cfg = cfg \<and> swaps = swaps \<and> accounts = accounts \<and> mnt = mnt
            \<and> amount = amount \<and> val = val \<and> retries \<le> 2 ^ 53)"
    apply (rule sell_loop.raw_induct
      [where P = "\<lambda>rt' cfg' swaps' accounts' mnt' amount' val' r b y.
          \<not> (rt' = rt \<and> cfg' = cfg \<and> swaps' = swaps \<and> accounts' = accounts \<and> mnt' = mnt
               \<and> amount' = amount \<and> val' = val \<and> r \<le> 2 ^ 53)", OF _ y])
    subgoal premises prems for f rt' cfg' swaps' accounts' mnt' amount' val' r b rta
    proof
      assume eq: "rt' = rt \<and> cfg' = cfg \<and> swaps' = swaps \<and> accounts' = accounts \<and> mnt' = mnt
               \<and> amount' = amount \<and> val' = val \<and> r \<le> 2 ^ 53"
      then have "r \<le> 2 ^ 53" by blast
      then have r: "js_increment r \<le> 2 ^ 53" by (rule js_increment_bound)
      from below[OF r] have lt: "js_lt (Fin (real (js_increment r))) (MAX_SELL_RETRIES cfg)" .
      from prems(2) eq assms(1-6) lt
      have "f rt cfg swaps accounts mnt amount val (js_increment r) (Suc b) = Some rta"
        by (simp add: Let_def)
      from prems(1)[OF this] r show False by simp
    qed
    done
  with assms(8) show False by simp
qed

lemma retry_spec:
  "retry fn retries ms c = (r, n, sl) \<Longrightarrow>
     c < n \<and> n \<le> c + nat retries + 1 \<and> sl = replicate (n - c - 1) ms \<and> r = fn (n - 1)
     \<and> (\<forall>k. c \<le> k \<and> k < n - 1 \<longrightarrow> isl (fn k))
     \<and> (isl r \<longrightarrow> n = c + nat retries + 1)"
proof (induction fn retries ms c arbitrary: r n sl rule: retry.induct)
  case (1 fn retries ms c)
  show ?case
  proof (cases "fn c")
    case (Inr v)
    with "1.prems" have "r = Inr v \<and> n = Suc c \<and> sl = []"
      by (subst (asm) retry.simps) simp
    with Inr show ?thesis by auto
  next
    case (Inl e)
    show ?thesis
    proof (cases "retries \<le> 0")
      case True
      with Inl "1.prems" have "r = Inl e \<and> n = Suc c \<and> sl = []"
        by (subst (asm) retry.simps) simp
      with Inl True show ?thesis by auto
    next
      case False
      obtain r' n' sl' where rec: "retry fn (retries - 1) ms (Suc c) = (r', n', sl')"
        by (cases "retry fn (retries - 1) ms (Suc c)") auto
      from "1.prems" have "(r', n', ms # sl') = (r, n, sl)"
        by (subst (asm) retry.simps) (simp add: Inl False rec)
      then have eq: "r = r'" "n = n'" "sl = ms # sl'" by simp_all
      from "1.IH"[OF Inl False rec] have
        i1: "Suc c < n'" and i2: "n' \<le> Suc c + nat (retries - 1) + 1"
        and i3: "sl' = replicate (n' - Suc c - 1) ms" and i4: "r' = fn (n' - 1)"
        and i5: "\<forall>k. Suc c \<le> k \<and> k < n' - 1 \<longrightarrow> isl (fn k)"
        and i6: "isl r' \<longrightarrow> n' = Suc c + nat (retries - 1) + 1"
        by blast+
      have pos: "nat retries = Suc (nat (retries - 1))" using False by arith
      have a: "c < n" using i1 eq(2) by arith
      have b: "n \<le> c + nat retries + 1" using i2 eq(2) pos by arith
      have "n' - c - 1 = Suc (n' - Suc c - 1)" using i1 by arith
      then have "replicate (n' - c - 1) ms = ms # replicate (n' - Suc c - 1) ms"
        by (simp only: replicate_Suc)
      then have c: "sl = replicate (n - c - 1) ms" using i3 eq(2,3) by (simp only:)
      have d: "r = fn (n - 1)" using i4 eq(1,2) by (simp only:)
      have e: "\<forall>k. c \<le> k \<and> k < n - 1 \<longrightarrow> isl (fn k)"
      proof (intro allI impI)
        fix k assume k: "c \<le> k \<and> k < n - 1"
        show "isl (fn k)"
        proof (cases "k = c")
          case True with Inl show ?thesis by simp
        next
          case neq: False
          with k eq(2) have "Suc c \<le> k \<and> k < n' - 1" by arith
          with i5 show ?thesis by blast
        qed
      qed
      have f: "isl r \<longrightarrow> n = c + nat retries + 1"
      proof
        assume "isl r"
        then have "isl r'" using eq(1) by (simp only:)
        with i6 have "n' = Suc c + nat (retries - 1) + 1" by blast
        then show "n = c + nat retries + 1" using eq(2) pos by arith
      qed
      from a b c d e f show ?thesis by blast
    qed
  qed
qed

lemma notify_inv: "dispatchInv st \<Longrightarrow> dispatchInv (notify ts st n)"
  by (cases n) (auto simp: dispatchInv_def onPoolChange_def onMarketChange_def Let_def split: sum.splits)

lemma foldl_notify_inv: "dispatchInv st \<Longrightarrow> dispatchInv (foldl (notify ts) st ns)"
  by (induction ns arbitrary: st) (simp_all add: notify_inv)

lemma notify_grows:
  "existingLiquidityPools st \<subseteq> existingLiquidityPools (notify ts st n)
   \<and> existingOpenBookMarkets st \<subseteq> existingOpenBookMarkets (notify ts st n)"
  by (cases n) (auto simp: onPoolChange_def onMarketChange_def Let_def split: sum.splits)

lemma foldl_notify_grows:
  "existingLiquidityPools st \<subseteq> existingLiquidityPools (foldl (notify ts) st ns)
   \<and> existingOpenBookMarkets st \<subseteq> existingOpenBookMarkets (foldl (notify ts) st ns)"
proof (induction ns arbitrary: st)
  case Nil
  show ?case by simp
next
  case (Cons n ns)
  from notify_grows[of st ts n] Cons[of "notify ts st n"] show ?case by auto
qed

lemma notify_pools_iff:
  "key \<in> existingLiquidityPools (notify ts st n) \<longleftrightarrow>
     key \<in> existingLiquidityPools st \<or> (\<exists>t. n = PoolChange key (Inr t) \<and> js_gt t ts)"
  by (cases n) (auto simp: onPoolChange_def onMarketChange_def Let_def split: sum.splits)

lemma notify_markets_iff:
  "key \<in> existingOpenBookMarkets (notify ts st n) \<longleftrightarrow>
     key \<in> existingOpenBookMarkets st \<or> n = MarketChange key"
  by (cases n) (auto simp: onPoolChange_def onMarketChange_def Let_def split: sum.splits)

lemma foldl_notify_pools_iff:
  "key \<in> existingLiquidityPools (foldl (notify ts) st ns) \<longleftrightarrow>
     key \<in> existingLiquidityPools st \<or> (\<exists>t. PoolChange key (Inr t) \<in> set ns \<and> js_gt t ts)"
proof (induction ns arbitrary: st)
  case Nil
  show ?case by simp
next
  case (Cons n ns)
  have "key \<in> existingLiquidityPools (foldl (notify ts) (notify ts st n) ns) \<longleftrightarrow>
     (key \<in> existingLiquidityPools st \<or> (\<exists>t. n = PoolChange key (Inr t) \<and> js_gt t ts))
     \<or> (\<exists>t. PoolChange key (Inr t) \<in> set ns \<and> js_gt t ts)"
    by (simp only: Cons.IH notify_pools_iff)
  then show ?case by auto
qed

lemma foldl_notify_markets_iff:
  "key \<in> existingOpenBookMarkets (foldl (notify ts) st ns) \<longleftrightarrow>
     key \<in> existingOpenBookMarkets st \<or> MarketChange key \<in> set ns"
proof (induction ns arbitrary: st)
  case Nil
  show ?case by simp
next
  case (Cons n ns)
  have "key \<in> existingOpenBookMarkets (foldl (notify ts) (notify ts st n) ns) \<longleftrightarrow>
     (key \<in> existingOpenBookMarkets st \<or> n = MarketChange key) \<or> MarketChange key \<in> set ns"
    by (simp only: Cons.IH notify_markets_iff)
  then show ?case by auto
qed

lemma noBuyValue_upd: "noBuyValue m \<Longrightarrow> buyValue ta = None \<Longrightarrow> noBuyValue (m(k \<mapsto> ta))"
  by (auto simp: noBuyValue_def)

lemma noBuyValue_init: "noBuyValue m \<Longrightarrow> noBuyValue (initTokenAccounts tas m)"
  unfolding initTokenAccounts_def
  by (induction tas arbitrary: m) (simp_all add: noBuyValue_upd)

lemma noBuyValue_save:
  "noBuyValue m \<Longrightarrow> noBuyValue (snd (saveTokenAccount ata m k md))
     \<and> buyValue (fst (saveTokenAccount ata m k md)) = None"
  by (auto simp: noBuyValue_def saveTokenAccount_def Let_def)

lemma noBuyValue_market: "noBuyValue m \<Longrightarrow> noBuyValue (processOpenBookMarket ata m decoded)"
  using noBuyValue_save by (auto simp: processOpenBookMarket_def split: sum.splits)

lemma noBuyValue_buy:
  "noBuyValue m \<Longrightarrow> noBuyValue (accountsAfter (buy rt fl tp w ata q m accountId accountData))"
  by (auto simp: buy_def buyEnds_def Let_def noBuyValue_def saveTokenAccount_def
      split: option.splits sum.splits prod.splits if_splits)

lemma noBuyValue_writer: "noBuyValue m \<Longrightarrow> noBuyValue (applyWriter ata m wr)"
  by (cases wr) (simp_all add: noBuyValue_init noBuyValue_market noBuyValue_buy)

lemma noBuyValue_foldl: "noBuyValue m \<Longrightarrow> noBuyValue (foldl (applyWriter ata) m ws)"
  by (induction ws arbitrary: m) (simp_all add: noBuyValue_writer)

lemma noBuyValue_writes: "noBuyValue (accountsAfterWrites ata ws)"
  unfolding accountsAfterWrites_def
  by (rule noBuyValue_foldl) (simp add: noBuyValue_def)

lemma buy_reach:
  assumes reach: "reachesSubmission rt fl tp w q accounts accountData"
    and R: "retry (sendRawTransaction w) 3 1000 0 = (r, n, sl)"
  shows "submissions (buy rt fl tp w ata q accounts accountId accountData) = n
       \<and> sleeps (buy rt fl tp w ata q accounts accountId accountData) = sl
       \<and> confirmations (buy rt fl tp w ata q accounts accountId accountData) =
           (if \<not> isl r then 1 else 0)
       \<and> returned (buy rt fl tp w ata q accounts accountId accountData) =
              (case r of
                 Inl e \<Rightarrow> Inl e
               | Inr sg \<Rightarrow>
                   (case confirmTransaction w of
                      Inl e \<Rightarrow> Inl e
                    | Inr err \<Rightarrow> if err then Inl (Exn ''Transaction failed'') else Inr ()))"
proof -
  from reach have safe: "safe (fst (checkTradeSafety rt fl tp (poolBaseMint accountData) q (Fin 0)))"
    and built: "\<not> isl (buildTransaction w)"
    by (simp_all add: reachesSubmission_def)
  from built obtain u where b: "buildTransaction w = Inr u" by (cases "buildTransaction w") simp_all
  show ?thesis
  proof (cases "accounts (poolBaseMint accountData)")
    case None
    with reach have "\<not> isl (getMinimalMarketV3 w)" by (simp add: reachesSubmission_def)
    then obtain m where m: "getMinimalMarketV3 w = Inr m"
      by (cases "getMinimalMarketV3 w") simp_all
    show ?thesis
      unfolding buy_def
      by (auto simp: None m safe b R saveTokenAccount_def createPoolKeys_def Let_def
          buyEnds_def split: sum.splits)
  next
    case (Some ta)
    with reach obtain mk where mk: "market ta = Some mk" by (auto simp: reachesSubmission_def)
    show ?thesis
      unfolding buy_def
      by (auto simp: Some mk safe b R createPoolKeys_def Let_def buyEnds_def split: sum.splits)
  qed
qed

lemma buy_no_reach:
  assumes "\<not> reachesSubmission rt fl tp w q accounts accountData"
  shows "submissions (buy rt fl tp w ata q accounts accountId accountData) = 0
       \<and> sleeps (buy rt fl tp w ata q accounts accountId accountData) = []
       \<and> confirmations (buy rt fl tp w ata q accounts accountId accountData) = 0"
proof (cases "accounts (poolBaseMint accountData)")
  case None
  show ?thesis
  proof (cases "getMinimalMarketV3 w")
    case (Inl e)
    then show ?thesis unfolding buy_def by (simp add: None buyEnds_def)
  next
    case (Inr m)
    with assms None have c: "\<not> safe (fst (checkTradeSafety rt fl tp (poolBaseMint accountData) q (Fin 0)))
        \<or> isl (buildTransaction w)"
      by (simp add: reachesSubmission_def)
    show ?thesis
    proof (cases "safe (fst (checkTradeSafety rt fl tp (poolBaseMint accountData) q (Fin 0)))")
      case False
      then show ?thesis unfolding buy_def by (simp add: None Inr Let_def buyEnds_def split: prod.splits)
    next
      case True
      with c obtain e where "buildTransaction w = Inl e" by (cases "buildTransaction w") simp_all
      with True show ?thesis
        unfolding buy_def
        by (simp add: None Inr saveTokenAccount_def createPoolKeys_def Let_def buyEnds_def)
    qed
  qed
next
  case (Some ta)
  show ?thesis
  proof (cases "safe (fst (checkTradeSafety rt fl tp (poolBaseMint accountData) q (Fin 0)))")
    case False
    then show ?thesis unfolding buy_def by (simp add: Some Let_def buyEnds_def)
  next
    case True
    show ?thesis
    proof (cases "market ta")
      case None
      with True show ?thesis unfolding buy_def by (simp add: Some createPoolKeys_def Let_def buyEnds_def)
    next
      case (Some mk)
      with assms \<open>accounts (poolBaseMint accountData) = Some ta\<close> True
      obtain e where "buildTransaction w = Inl e"
        by (cases "buildTransaction w") (simp_all add: reachesSubmission_def)
      with True Some show ?thesis
        unfolding buy_def
        by (simp add: \<open>accounts (poolBaseMint accountData) = Some ta\<close> createPoolKeys_def Let_def
            buyEnds_def)
    qed
  qed
qed

lemma buy_shape:
  assumes R: "retry (sendRawTransaction w) 3 1000 0 = (r, n, sl)"
  shows "submissions (buy rt fl tp w ata q accounts accountId accountData) =
           (if reachesSubmission rt fl tp w q accounts accountData then n else 0)
       \<and> sleeps (buy rt fl tp w ata q accounts accountId accountData) =
           (if reachesSubmission rt fl tp w q accounts accountData then sl else [])
       \<and> confirmations (buy rt fl tp w ata q accounts accountId accountData) =
           (if reachesSubmission rt fl tp w q accounts accountData \<and> \<not> isl r then 1 else 0)
       \<and> (reachesSubmission rt fl tp w q accounts accountData \<longrightarrow>
            returned (buy rt fl tp w ata q accounts accountId accountData) =
              (case r of
                 Inl e \<Rightarrow> Inl e
               | Inr sg \<Rightarrow>
                   (case confirmTransaction w of
                      Inl e \<Rightarrow> Inl e
                    | Inr err \<Rightarrow> if err then Inl (Exn ''Transaction failed'') else Inr ())))"
proof (cases "reachesSubmission rt fl tp w q accounts accountData")
  case True
  from buy_reach[OF True R, of ata accountId] True show ?thesis by simp
next
  case False
  from buy_no_reach[OF False, of ata accountId] False show ?thesis by simp
qed

lemma retry_three:
  assumes R: "retry fn 3 1000 0 = (r, n, sl)"
  shows "0 < n" "n \<le> 4" "sl = replicate (n - 1) 1000" "r = fn (n - 1)"
    "\<forall>k. k < n - 1 \<longrightarrow> isl (fn k)" "isl r \<longrightarrow> n = 4"
proof -
  note s = retry_spec[OF R]
  from s show "0 < n" by blast
  from s have "n \<le> 0 + nat 3 + 1" by blast
  then show "n \<le> 4" by simp
  from s have "sl = replicate (n - 0 - 1) 1000" by blast
  then show "sl = replicate (n - 1) 1000" by simp
  from s show "r = fn (n - 1)" by blast
  from s have "\<forall>k. 0 \<le> k \<and> k < n - 1 \<longrightarrow> isl (fn k)" by blast
  then show "\<forall>k. k < n - 1 \<longrightarrow> isl (fn k)" by simp
  from s have "isl r \<longrightarrow> n = 0 + nat 3 + 1" by blast
  then show "isl r \<longrightarrow> n = 4" by simp
qed

lemma outcome_props:
  fixes out :: BuyOutcome
  assumes n: "0 < n" "n \<le> 4" and sl: "sl = replicate (n - 1) 1000" and r: "r = send (n - 1)"
    and before: "\<forall>k. k < n - 1 \<longrightarrow> isl (send k)"
    and last: "isl r \<longrightarrow> n = 4"
    and shape: "submissions out = (if reach then n else 0)
       \<and> sleeps out = (if reach then sl else [])
       \<and> confirmations out = (if reach \<and> \<not> isl r then 1 else 0)
       \<and> (reach \<longrightarrow>
            returned out =
              (case r of
                 Inl e \<Rightarrow> Inl e
               | Inr sg \<Rightarrow>
                   (case conf of
                      Inl e \<Rightarrow> Inl e
                    | Inr err \<Rightarrow> if err then Inl (Exn ''Transaction failed'') else Inr ())))"
  shows "(0 < submissions out \<longleftrightarrow> reach)
   \<and> submissions out \<le> 4
   \<and> (\<forall>k. k < submissions out - 1 \<longrightarrow> isl (send k))
   \<and> (0 < submissions out \<and> isl (send (submissions out - 1)) \<longrightarrow> submissions out = 4)
   \<and> (reach \<and> (\<forall>k. k < 3 \<longrightarrow> isl (send k)) \<longrightarrow> submissions out = 4)
   \<and> sleeps out = replicate (submissions out - 1) 1000
   \<and> confirmations out =
       (if 0 < submissions out \<and> \<not> isl (send (submissions out - 1)) then 1 else 0)
   \<and> (confirmations out = 1 \<longrightarrow> (returned out = Inr () \<longleftrightarrow> conf = Inr False))
   \<and> (confirmations out = 1 \<and> conf \<noteq> Inr False \<longrightarrow> isl (returned out))
   \<and> (0 < submissions out \<and> confirmations out = 0 \<longrightarrow> isl (returned out))"
proof (cases reach)
  case False
  with shape have "submissions out = 0" "sleeps out = []" "confirmations out = 0" by simp_all
  with False show ?thesis by simp
next
  case True
  with shape have s: "submissions out = n" and sleeps: "sleeps out = sl"
    and c: "confirmations out = (if \<not> isl r then 1 else 0)"
    and ret: "returned out =
              (case r of
                 Inl e \<Rightarrow> Inl e
               | Inr sg \<Rightarrow>
                   (case conf of
                      Inl e \<Rightarrow> Inl e
                    | Inr err \<Rightarrow> if err then Inl (Exn ''Transaction failed'') else Inr ()))"
    by simp_all
  have p1: "0 < submissions out \<longleftrightarrow> reach" using s n(1) True by simp
  have p2: "submissions out \<le> 4" using s n(2) by simp
  have p3: "\<forall>k. k < submissions out - 1 \<longrightarrow> isl (send k)" using s before by simp
  have last': "isl (send (n - 1)) \<longrightarrow> n = 4" using r last by blast
  have same: "isl r \<longleftrightarrow> isl (send (n - 1))" using r by blast
  have p4: "0 < submissions out \<and> isl (send (submissions out - 1)) \<longrightarrow> submissions out = 4"
    unfolding s using last' by blast
  have p5: "reach \<and> (\<forall>k. k < 3 \<longrightarrow> isl (send k)) \<longrightarrow> submissions out = 4"
  proof
    assume a: "reach \<and> (\<forall>k. k < 3 \<longrightarrow> isl (send k))"
    show "submissions out = 4"
    proof (cases "n = 4")
      case True
      with s show ?thesis by simp
    next
      case False
      with n have "n - 1 < 3" by arith
      with a have "isl (send (n - 1))" by blast
      with last' have "n = 4" by blast
      with s show ?thesis by blast
    qed
  qed
  have p6: "sleeps out = replicate (submissions out - 1) 1000" using s sleeps sl by simp
  have p7: "confirmations out =
       (if 0 < submissions out \<and> \<not> isl (send (submissions out - 1)) then 1 else 0)"
    unfolding s c same using n(1) by simp
  have p8: "confirmations out = 1 \<longrightarrow> (returned out = Inr () \<longleftrightarrow> conf = Inr False)"
  proof
    assume one: "confirmations out = 1"
    have "\<not> isl r"
    proof
      assume "isl r"
      then have "confirmations out = 0" unfolding c by simp
      with one show False by simp
    qed
    then obtain sg where "r = Inr sg" by (cases r) simp_all
    with ret have "returned out = (case conf of
                      Inl e \<Rightarrow> Inl e
                    | Inr err \<Rightarrow> if err then Inl (Exn ''Transaction failed'') else Inr ())"
      by simp
    then show "returned out = Inr () \<longleftrightarrow> conf = Inr False"
      by (cases conf) auto
  qed
  have p9: "confirmations out = 1 \<and> conf \<noteq> Inr False \<longrightarrow> isl (returned out)"
  proof
    assume a: "confirmations out = 1 \<and> conf \<noteq> Inr False"
    have "\<not> isl r"
    proof
      assume "isl r"
      then have "confirmations out = 0" unfolding c by simp
      with a show False by simp
    qed
    then obtain sg where "r = Inr sg" by (cases r) simp_all
    with ret have "returned out = (case conf of
                      Inl e \<Rightarrow> Inl e
                    | Inr err \<Rightarrow> if err then Inl (Exn ''Transaction failed'') else Inr ())"
      by simp
    with a show "isl (returned out)" by (cases conf) auto
  qed
  have p10: "0 < submissions out \<and> confirmations out = 0 \<longrightarrow> isl (returned out)"
  proof
    assume zero: "0 < submissions out \<and> confirmations out = 0"
    have "isl r"
    proof (rule ccontr)
      assume "\<not> isl r"
      then have "confirmations out = 1" unfolding c by simp
      with zero show False by simp
    qed
    then obtain e where "r = Inl e" by (cases r) simp_all
    with ret show "isl (returned out)" by simp
  qed
  from p1 p2 p3 p4 p5 p6 p7 p8 p9 p10 show ?thesis by (intro conjI)
qed

subsection \<open>checkTradeSafety\<close>

text \<open>
  C1. Whenever the amount conversion yields a number, \<^verbatim>\<open>checkTradeSafety\<close> evaluates the
  trade-size check first, the liquidity check second and the price-impact check last,
  and stops at the first check that fails: a trade above the maximum size is rejected
  before any lookup is made, a liquidity failure is reported after the liquidity lookup
  alone, and only the last check follows both lookups. In particular, when the size
  bound and the liquidity bound are both violated the reason is the trade-size message,
  which contains "exceeds maximum allowed", and it is no liquidity message.
\<close>

theorem checkTradeSafety_order:
  assumes "getAmountInSol rt fl amount = Inr a"
  shows "(js_gt a (maxTradeSize tp) \<longrightarrow>
            checkTradeSafety rt fl tp mnt amount p =
              (rejected (tradeSizeReason rt a (maxTradeSize tp)), []))
       \<and> (\<not> js_gt a (maxTradeSize tp) \<and> js_lt (getTokenLiquidity fl tp) (minLiquidity tp) \<longrightarrow>
            checkTradeSafety rt fl tp mnt amount p =
              (rejected (liquidityReason rt (getTokenLiquidity fl tp) (minLiquidity tp)),
               [LiquidityLookup]))
       \<and> (\<not> js_gt a (maxTradeSize tp) \<and> \<not> js_lt (getTokenLiquidity fl tp) (minLiquidity tp)
            \<and> js_gt (calculatePriceImpact fl tp) (maxSlippage tp) \<longrightarrow>
            checkTradeSafety rt fl tp mnt amount p =
              (rejected (priceImpactReason rt (calculatePriceImpact fl tp) (maxSlippage tp)),
               [LiquidityLookup, PriceImpactLookup]))
       \<and> (\<not> js_gt a (maxTradeSize tp) \<and> \<not> js_lt (getTokenLiquidity fl tp) (minLiquidity tp)
            \<and> \<not> js_gt (calculatePriceImpact fl tp) (maxSlippage tp) \<longrightarrow>
            checkTradeSafety rt fl tp mnt amount p =
              (accepted, [LiquidityLookup, PriceImpactLookup]))
       \<and> (js_gt a (maxTradeSize tp) \<and> js_lt (getTokenLiquidity fl tp) (minLiquidity tp) \<longrightarrow>
            reason (fst (checkTradeSafety rt fl tp mnt amount p)) =
              Some (tradeSizeReason rt a (maxTradeSize tp))
            \<and> sublist ''exceeds maximum allowed'' (tradeSizeReason rt a (maxTradeSize tp))
            \<and> (\<forall>l k. reason (fst (checkTradeSafety rt fl tp mnt amount p)) \<noteq>
                  Some (liquidityReason rt l k)))"
  using checkTradeSafety_cases[OF assms, of tp mnt p]
    tradeSizeReason_includes[of rt a "maxTradeSize tp"]
    tradeSizeReason_neq_liquidityReason[of rt a "maxTradeSize tp"]
  by (simp add: rejected_def)

theorem checkTradeSafety_order_witness:
  "getAmountInSol exampleRuntime noFaults \<lparr>raw = ''100000000''\<rparr> = Inr (Fin (1 / 10))
   \<and> js_gt (Fin (1 / 10))
        (maxTradeSize (setMinLiquidity (setMaxTradeSize newTradingProtection (Fin (1 / 20))) (Fin 2000)))
   \<and> js_lt (getTokenLiquidity noFaults
             (setMinLiquidity (setMaxTradeSize newTradingProtection (Fin (1 / 20))) (Fin 2000)))
        (minLiquidity (setMinLiquidity (setMaxTradeSize newTradingProtection (Fin (1 / 20))) (Fin 2000)))
   \<and> checkTradeSafety exampleRuntime noFaults
        (setMinLiquidity (setMaxTradeSize newTradingProtection (Fin (1 / 20))) (Fin 2000))
        ''mint'' \<lparr>raw = ''100000000''\<rparr> (Fin 1) =
       (rejected ''Trade size # SOL exceeds maximum allowed # SOL'', [])"
proof -
  have h: "getAmountInSol exampleRuntime noFaults \<lparr>raw = ''100000000''\<rparr> = Inr (Fin (1 / 10))"
    by (simp add: getAmountInSol_def exampleRuntime_def noFaults_def)
  show ?thesis
    using h checkTradeSafety_order[OF h,
        of "setMinLiquidity (setMaxTradeSize newTradingProtection (Fin (1 / 20))) (Fin 2000)"
           "''mint''" "Fin 1"]
    by (simp add: setMinLiquidity_def setMaxTradeSize_def newTradingProtection_def js_gt_def
        getTokenLiquidity_def noFaults_def tradeSizeReason_def exampleRuntime_def)
qed

text \<open>
  C5, as stated, fails: it is not in every result that the reason is the message of a
  violated check. When the amount conversion raises, the result carries the reason
  "Failed to check trade safety" although the liquidity and the price impact are within
  their bounds (and so would the amount of 0.1 be); that reason is none of the three
  check messages.
\<close>

theorem checkTradeSafety_failed_reason_counterexample:
  "fst (checkTradeSafety exampleRuntime
          \<lparr>amountFault = True, liquidityFault = False, impactFault = False\<rparr>
          newTradingProtection ''mint'' \<lparr>raw = ''100000000''\<rparr> (Fin 1))
     = \<lparr>safe = False, reason = Some ''Failed to check trade safety''\<rparr>
   \<and> \<not> js_gt (Fin (1 / 10)) (maxTradeSize newTradingProtection)
   \<and> \<not> js_lt (mockLiquidity newTradingProtection) (minLiquidity newTradingProtection)
   \<and> \<not> js_gt (mockPriceImpact newTradingProtection) (maxSlippage newTradingProtection)
   \<and> ''Failed to check trade safety'' \<noteq>
        tradeSizeReason exampleRuntime (Fin (1 / 10)) (maxTradeSize newTradingProtection)
   \<and> ''Failed to check trade safety'' \<noteq>
        liquidityReason exampleRuntime (mockLiquidity newTradingProtection)
          (minLiquidity newTradingProtection)
   \<and> ''Failed to check trade safety'' \<noteq>
        priceImpactReason exampleRuntime (mockPriceImpact newTradingProtection)
          (maxSlippage newTradingProtection)"
  by (simp add: checkTradeSafety_def checkTradeSafety_body_def getAmountInSol_def
      newTradingProtection_def js_gt_def rejected_def tradeSizeReason_def liquidityReason_def
      priceImpactReason_def)

text \<open>
  C5, amended. In every result of \<^verbatim>\<open>checkTradeSafety\<close> the reason is present exactly when
  \<open>safe\<close> is false. When the amount conversion raises, the result is \<open>safe = False\<close>
  with the reason "Failed to check trade safety", which is no check's message. When the
  conversion yields a number: if no check fails the result is \<open>safe = True\<close> without a
  reason, and otherwise it is \<open>safe = False\<close> with the message of the first check that
  fails, in the order trade size, liquidity, price impact.
\<close>

theorem checkTradeSafety_result:
  "(safe (fst (checkTradeSafety rt fl tp mnt amount p)) \<longleftrightarrow>
      reason (fst (checkTradeSafety rt fl tp mnt amount p)) = None)
   \<and> (\<forall>e. getAmountInSol rt fl amount = Inl e \<longrightarrow>
        fst (checkTradeSafety rt fl tp mnt amount p) =
          \<lparr>safe = False, reason = Some ''Failed to check trade safety''\<rparr>)
   \<and> (\<forall>a. getAmountInSol rt fl amount = Inr a \<longrightarrow>
        fst (checkTradeSafety rt fl tp mnt amount p) =
          (if js_gt a (maxTradeSize tp)
           then \<lparr>safe = False,
                 reason = Some (''Trade size '' @ numberToString rt a
                   @ '' SOL exceeds maximum allowed '' @ numberToString rt (maxTradeSize tp)
                   @ '' SOL'')\<rparr>
           else if js_lt (getTokenLiquidity fl tp) (minLiquidity tp)
           then \<lparr>safe = False,
                 reason = Some (''Insufficient liquidity: ''
                   @ numberToString rt (getTokenLiquidity fl tp) @ '' SOL < ''
                   @ numberToString rt (minLiquidity tp) @ '' SOL'')\<rparr>
           else if js_gt (calculatePriceImpact fl tp) (maxSlippage tp)
           then \<lparr>safe = False,
                 reason = Some (''Price impact '' @ numberToString rt (calculatePriceImpact fl tp)
                   @ ''% exceeds maximum allowed '' @ numberToString rt (maxSlippage tp)
                   @ ''%'')\<rparr>
           else \<lparr>safe = True, reason = None\<rparr>))
   \<and> (\<forall>x y. ''Failed to check trade safety'' \<noteq> tradeSizeReason rt x y
          \<and> ''Failed to check trade safety'' \<noteq> liquidityReason rt x y
          \<and> ''Failed to check trade safety'' \<noteq> priceImpactReason rt x y)"
proof -
  have failed: "fst (checkTradeSafety rt fl tp mnt amount p) =
          \<lparr>safe = False, reason = Some ''Failed to check trade safety''\<rparr>"
    if "getAmountInSol rt fl amount = Inl e" for e
    using checkTradeSafety_raise[OF that, of tp mnt p] by (simp add: rejected_def)
  have checked: "fst (checkTradeSafety rt fl tp mnt amount p) =
          (if js_gt a (maxTradeSize tp)
           then \<lparr>safe = False,
                 reason = Some (''Trade size '' @ numberToString rt a
                   @ '' SOL exceeds maximum allowed '' @ numberToString rt (maxTradeSize tp)
                   @ '' SOL'')\<rparr>
           else if js_lt (getTokenLiquidity fl tp) (minLiquidity tp)
           then \<lparr>safe = False,
                 reason = Some (''Insufficient liquidity: ''
                   @ numberToString rt (getTokenLiquidity fl tp) @ '' SOL < ''
                   @ numberToString rt (minLiquidity tp) @ '' SOL'')\<rparr>
           else if js_gt (calculatePriceImpact fl tp) (maxSlippage tp)
           then \<lparr>safe = False,
                 reason = Some (''Price impact '' @ numberToString rt (calculatePriceImpact fl tp)
                   @ ''% exceeds maximum allowed '' @ numberToString rt (maxSlippage tp)
                   @ ''%'')\<rparr>
           else \<lparr>safe = True, reason = None\<rparr>)"
    if "getAmountInSol rt fl amount = Inr a" for a
    using checkTradeSafety_cases[OF that, of tp mnt p]
    by (simp add: rejected_def accepted_def tradeSizeReason_def liquidityReason_def
        priceImpactReason_def)
  have iff: "safe (fst (checkTradeSafety rt fl tp mnt amount p)) \<longleftrightarrow>
      reason (fst (checkTradeSafety rt fl tp mnt amount p)) = None"
  proof (cases "getAmountInSol rt fl amount")
    case (Inl e)
    from failed[OF this] show ?thesis by simp
  next
    case (Inr a)
    from checked[OF this] show ?thesis by simp
  qed
  have other: "''Failed to check trade safety'' \<noteq> tradeSizeReason rt x y
          \<and> ''Failed to check trade safety'' \<noteq> liquidityReason rt x y
          \<and> ''Failed to check trade safety'' \<noteq> priceImpactReason rt x y" for x y
    by (simp add: tradeSizeReason_def liquidityReason_def priceImpactReason_def)
  from iff failed checked other show ?thesis by blast
qed

theorem checkTradeSafety_result_witness:
  "getAmountInSol exampleRuntime noFaults \<lparr>raw = ''100000000''\<rparr> = Inr (Fin (1 / 10))
   \<and> fst (checkTradeSafety exampleRuntime noFaults newTradingProtection ''mint''
            \<lparr>raw = ''100000000''\<rparr> (Fin 1)) = \<lparr>safe = True, reason = None\<rparr>
   \<and> getAmountInSol tableRuntime noFaults \<lparr>raw = ''100000000''\<rparr> = Inr (Fin (1 / 10))
   \<and> fst (checkTradeSafety tableRuntime noFaults
            (setMinLiquidity (setMaxTradeSize newTradingProtection (Fin 10)) (Fin 2000)) ''mint''
            \<lparr>raw = ''100000000''\<rparr> (Fin 1)) =
       \<lparr>safe = False, reason = Some ''Insufficient liquidity: 1000 SOL < 2000 SOL''\<rparr>
   \<and> getAmountInSol exampleRuntime \<lparr>amountFault = True, liquidityFault = False, impactFault = False\<rparr>
        \<lparr>raw = ''100000000''\<rparr> = Inl (Exn ''Error converting amount to SOL'')
   \<and> fst (checkTradeSafety exampleRuntime
            \<lparr>amountFault = True, liquidityFault = False, impactFault = False\<rparr>
            newTradingProtection ''mint'' \<lparr>raw = ''100000000''\<rparr> (Fin 1)) =
       \<lparr>safe = False, reason = Some ''Failed to check trade safety''\<rparr>"
proof -
  have h: "getAmountInSol exampleRuntime noFaults \<lparr>raw = ''100000000''\<rparr> = Inr (Fin (1 / 10))"
    by (simp add: getAmountInSol_def exampleRuntime_def noFaults_def)
  have h2: "getAmountInSol tableRuntime noFaults \<lparr>raw = ''100000000''\<rparr> = Inr (Fin (1 / 10))"
    by (simp add: getAmountInSol_def tableRuntime_def exampleRuntime_def noFaults_def)
  have h3: "getAmountInSol exampleRuntime
        \<lparr>amountFault = True, liquidityFault = False, impactFault = False\<rparr>
        \<lparr>raw = ''100000000''\<rparr> = Inl (Exn ''Error converting amount to SOL'')"
    by (simp add: getAmountInSol_def)
  show ?thesis
    using h h2 h3
      checkTradeSafety_result[of exampleRuntime noFaults newTradingProtection "''mint''"
        "\<lparr>raw = ''100000000''\<rparr>" "Fin 1"]
      checkTradeSafety_result[of tableRuntime noFaults
        "setMinLiquidity (setMaxTradeSize newTradingProtection (Fin 10)) (Fin 2000)" "''mint''"
        "\<lparr>raw = ''100000000''\<rparr>" "Fin 1"]
      checkTradeSafety_result[of exampleRuntime
        "\<lparr>amountFault = True, liquidityFault = False, impactFault = False\<rparr>"
        newTradingProtection "''mint''" "\<lparr>raw = ''100000000''\<rparr>" "Fin 1"]
    by (simp add: newTradingProtection_def js_gt_def getTokenLiquidity_def
        calculatePriceImpact_def noFaults_def setMinLiquidity_def setMaxTradeSize_def
        tableRuntime_def exampleRendering_def)
qed




subsection \<open>The setters\<close>

text \<open>
  C9, as stated, fails: the setters accept any number, so after
  \<^verbatim>\<open>setMaxTradeSize(-5)\<close> on a fresh instance the thresholds are not all strictly positive.
\<close>

theorem setters_unvalidated_counterexample:
  "\<not> thresholdsPositive (setMaxTradeSize newTradingProtection (Fin (- 5)))"
  by (simp add: thresholdsPositive_def setMaxTradeSize_def newTradingProtection_def js_gt_def)

text \<open>
  C9, amended. The initial thresholds are 1 (slippage), 1000 (trade size) and 100
  (liquidity), all strictly positive. A setter stores its argument unchanged in its own
  field and leaves every other field as it was. Hence after a setter call the three
  thresholds are strictly positive exactly when the argument is strictly positive and
  the other two thresholds were; in particular the setters keep the thresholds strictly
  positive as long as they are called with strictly positive arguments.
\<close>

theorem setters_store_argument:
  "maxSlippage newTradingProtection = Fin 1 \<and> maxTradeSize newTradingProtection = Fin 1000
   \<and> minLiquidity newTradingProtection = Fin 100
   \<and> thresholdsPositive newTradingProtection
   \<and> maxTradeSize (setMaxTradeSize tp x) = x
   \<and> minLiquidity (setMaxTradeSize tp x) = minLiquidity tp
   \<and> maxSlippage (setMaxTradeSize tp x) = maxSlippage tp
   \<and> mockLiquidity (setMaxTradeSize tp x) = mockLiquidity tp
   \<and> mockPriceImpact (setMaxTradeSize tp x) = mockPriceImpact tp
   \<and> minLiquidity (setMinLiquidity tp x) = x
   \<and> maxTradeSize (setMinLiquidity tp x) = maxTradeSize tp
   \<and> maxSlippage (setMinLiquidity tp x) = maxSlippage tp
   \<and> mockLiquidity (setMinLiquidity tp x) = mockLiquidity tp
   \<and> mockPriceImpact (setMinLiquidity tp x) = mockPriceImpact tp
   \<and> maxSlippage (setMaxSlippage tp x) = x
   \<and> maxTradeSize (setMaxSlippage tp x) = maxTradeSize tp
   \<and> minLiquidity (setMaxSlippage tp x) = minLiquidity tp
   \<and> mockLiquidity (setMaxSlippage tp x) = mockLiquidity tp
   \<and> mockPriceImpact (setMaxSlippage tp x) = mockPriceImpact tp
   \<and> (thresholdsPositive (setMaxTradeSize tp x) \<longleftrightarrow>
        js_gt x (Fin 0) \<and> js_gt (minLiquidity tp) (Fin 0) \<and> js_gt (maxSlippage tp) (Fin 0))
   \<and> (thresholdsPositive (setMinLiquidity tp x) \<longleftrightarrow>
        js_gt (maxTradeSize tp) (Fin 0) \<and> js_gt x (Fin 0) \<and> js_gt (maxSlippage tp) (Fin 0))
   \<and> (thresholdsPositive (setMaxSlippage tp x) \<longleftrightarrow>
        js_gt (maxTradeSize tp) (Fin 0) \<and> js_gt (minLiquidity tp) (Fin 0) \<and> js_gt x (Fin 0))
   \<and> (thresholdsPositive tp \<and> js_gt x (Fin 0) \<longrightarrow>
        thresholdsPositive (setMaxTradeSize tp x) \<and> thresholdsPositive (setMinLiquidity tp x)
        \<and> thresholdsPositive (setMaxSlippage tp x))"
proof -
  have init: "maxSlippage newTradingProtection = Fin 1 \<and> maxTradeSize newTradingProtection = Fin 1000
   \<and> minLiquidity newTradingProtection = Fin 100 \<and> thresholdsPositive newTradingProtection"
    by (simp add: newTradingProtection_def thresholdsPositive_def js_gt_def)
  have size: "maxTradeSize (setMaxTradeSize tp x) = x
   \<and> minLiquidity (setMaxTradeSize tp x) = minLiquidity tp
   \<and> maxSlippage (setMaxTradeSize tp x) = maxSlippage tp
   \<and> mockLiquidity (setMaxTradeSize tp x) = mockLiquidity tp
   \<and> mockPriceImpact (setMaxTradeSize tp x) = mockPriceImpact tp"
    by (simp add: setMaxTradeSize_def)
  have liq: "minLiquidity (setMinLiquidity tp x) = x
   \<and> maxTradeSize (setMinLiquidity tp x) = maxTradeSize tp
   \<and> maxSlippage (setMinLiquidity tp x) = maxSlippage tp
   \<and> mockLiquidity (setMinLiquidity tp x) = mockLiquidity tp
   \<and> mockPriceImpact (setMinLiquidity tp x) = mockPriceImpact tp"
    by (simp add: setMinLiquidity_def)
  have slip: "maxSlippage (setMaxSlippage tp x) = x
   \<and> maxTradeSize (setMaxSlippage tp x) = maxTradeSize tp
   \<and> minLiquidity (setMaxSlippage tp x) = minLiquidity tp
   \<and> mockLiquidity (setMaxSlippage tp x) = mockLiquidity tp
   \<and> mockPriceImpact (setMaxSlippage tp x) = mockPriceImpact tp"
    by (simp add: setMaxSlippage_def)
  have p1: "thresholdsPositive (setMaxTradeSize tp x) \<longleftrightarrow>
        js_gt x (Fin 0) \<and> js_gt (minLiquidity tp) (Fin 0) \<and> js_gt (maxSlippage tp) (Fin 0)"
    using size by (simp add: thresholdsPositive_def)
  have p2: "thresholdsPositive (setMinLiquidity tp x) \<longleftrightarrow>
        js_gt (maxTradeSize tp) (Fin 0) \<and> js_gt x (Fin 0) \<and> js_gt (maxSlippage tp) (Fin 0)"
    using liq by (simp add: thresholdsPositive_def)
  have p3: "thresholdsPositive (setMaxSlippage tp x) \<longleftrightarrow>
        js_gt (maxTradeSize tp) (Fin 0) \<and> js_gt (minLiquidity tp) (Fin 0) \<and> js_gt x (Fin 0)"
    using slip by (simp add: thresholdsPositive_def)
  have keep: "thresholdsPositive tp \<and> js_gt x (Fin 0) \<longrightarrow>
        thresholdsPositive (setMaxTradeSize tp x) \<and> thresholdsPositive (setMinLiquidity tp x)
        \<and> thresholdsPositive (setMaxSlippage tp x)"
    using p1 p2 p3 by (auto simp: thresholdsPositive_def)
  from init size liq slip p1 p2 p3 keep show ?thesis by blast
qed

theorem setters_store_argument_witness:
  "thresholdsPositive newTradingProtection \<and> js_gt (Fin 5) (Fin 0)
   \<and> thresholdsPositive (setMaxTradeSize newTradingProtection (Fin 5))
   \<and> thresholdsPositive (setMinLiquidity newTradingProtection (Fin 5))
   \<and> thresholdsPositive (setMaxSlippage newTradingProtection (Fin 5))
   \<and> maxTradeSize (setMaxTradeSize newTradingProtection (Fin 5)) = Fin 5
   \<and> minLiquidity (setMaxTradeSize newTradingProtection (Fin 5)) = Fin 100
   \<and> maxSlippage (setMaxTradeSize newTradingProtection (Fin 5)) = Fin 1"
  using setters_store_argument[of newTradingProtection "Fin 5"]
  by (auto simp: js_gt_def)

subsection \<open>The account-change handlers\<close>

text \<open>
  C7, as stated, fails for pools: a pool identity seen with an open time that is not
  after the start of the process is not added to the set, and is handed on when it is
  seen again with a later open time.
\<close>

theorem listener_stale_pool_counterexample:
  "''poolA'' \<notin> existingLiquidityPools (runListener (Fin 10) [PoolChange ''poolA'' (Inr (Fin 5))])
   \<and> poolsDispatched (runListener (Fin 10)
        [PoolChange ''poolA'' (Inr (Fin 5)), PoolChange ''poolA'' (Inr (Fin 20))]) = [''poolA'']"
  by (simp add: runListener_def startState_def onPoolChange_def js_gt_def Let_def)

text \<open>
  C7, amended. For every sequence of notifications processed from the start of the
  process: the market set holds exactly the market identities seen, and the pool set
  holds exactly the pool identities seen with an open time strictly after the start
  (so an identity enters its set on the first such sighting, and a pool identity seen
  only with earlier open times never does); each set holds exactly the identities handed
  on for processing, and no identity is handed on more than once; the sets only grow as
  further notifications arrive.
\<close>

theorem listener_dedup:
  "distinct (poolsDispatched (runListener ts ns))
   \<and> distinct (marketsDispatched (runListener ts ns))
   \<and> set (poolsDispatched (runListener ts ns)) = existingLiquidityPools (runListener ts ns)
   \<and> set (marketsDispatched (runListener ts ns)) = existingOpenBookMarkets (runListener ts ns)
   \<and> existingLiquidityPools (runListener ts ns) \<subseteq> existingLiquidityPools (runListener ts (ns @ ms))
   \<and> existingOpenBookMarkets (runListener ts ns) \<subseteq> existingOpenBookMarkets (runListener ts (ns @ ms))
   \<and> (key \<in> existingOpenBookMarkets (runListener ts ns) \<longleftrightarrow> MarketChange key \<in> set ns)
   \<and> (key \<in> existingLiquidityPools (runListener ts ns) \<longleftrightarrow>
        (\<exists>t. PoolChange key (Inr t) \<in> set ns \<and> js_gt t ts))"
proof -
  have "dispatchInv startState" by (simp add: dispatchInv_def startState_def)
  from foldl_notify_inv[OF this, of ts ns] have inv: "dispatchInv (runListener ts ns)"
    by (simp add: runListener_def)
  have grow: "existingLiquidityPools (runListener ts ns) \<subseteq> existingLiquidityPools (runListener ts (ns @ ms))
     \<and> existingOpenBookMarkets (runListener ts ns) \<subseteq> existingOpenBookMarkets (runListener ts (ns @ ms))"
    using foldl_notify_grows[of "foldl (notify ts) startState ns" ts ms]
    by (simp add: runListener_def)
  have m: "key \<in> existingOpenBookMarkets (runListener ts ns) \<longleftrightarrow> MarketChange key \<in> set ns"
    using foldl_notify_markets_iff[of key ts startState ns]
    by (simp add: runListener_def startState_def)
  have p: "key \<in> existingLiquidityPools (runListener ts ns) \<longleftrightarrow>
        (\<exists>t. PoolChange key (Inr t) \<in> set ns \<and> js_gt t ts)"
    using foldl_notify_pools_iff[of key ts startState ns]
    by (simp add: runListener_def startState_def)
  from inv grow m p show ?thesis unfolding dispatchInv_def by blast
qed

theorem listener_dedup_witness:
  "MarketChange ''m1'' \<in> set [MarketChange ''m1'', PoolChange ''p1'' (Inr (Fin 20)), MarketChange ''m1'',
       PoolChange ''p1'' (Inr (Fin 30)), PoolChange ''p0'' (Inr (Fin 5))]
   \<and> PoolChange ''p1'' (Inr (Fin 20)) \<in> set [MarketChange ''m1'', PoolChange ''p1'' (Inr (Fin 20)),
       MarketChange ''m1'', PoolChange ''p1'' (Inr (Fin 30)), PoolChange ''p0'' (Inr (Fin 5))]
   \<and> js_gt (Fin 20) (Fin 10)
   \<and> ''m1'' \<in> existingOpenBookMarkets (runListener (Fin 10)
        [MarketChange ''m1'', PoolChange ''p1'' (Inr (Fin 20)), MarketChange ''m1'',
         PoolChange ''p1'' (Inr (Fin 30)), PoolChange ''p0'' (Inr (Fin 5))])
   \<and> ''p1'' \<in> existingLiquidityPools (runListener (Fin 10)
        [MarketChange ''m1'', PoolChange ''p1'' (Inr (Fin 20)), MarketChange ''m1'',
         PoolChange ''p1'' (Inr (Fin 30)), PoolChange ''p0'' (Inr (Fin 5))])
   \<and> ''p0'' \<notin> existingLiquidityPools (runListener (Fin 10)
        [MarketChange ''m1'', PoolChange ''p1'' (Inr (Fin 20)), MarketChange ''m1'',
         PoolChange ''p1'' (Inr (Fin 30)), PoolChange ''p0'' (Inr (Fin 5))])
   \<and> distinct (poolsDispatched (runListener (Fin 10)
        [MarketChange ''m1'', PoolChange ''p1'' (Inr (Fin 20)), MarketChange ''m1'',
         PoolChange ''p1'' (Inr (Fin 30)), PoolChange ''p0'' (Inr (Fin 5))]))"
  using listener_dedup[where ts = "Fin 10" and ms = "[]" and key = "''m1''"
      and ns = "[MarketChange ''m1'', PoolChange ''p1'' (Inr (Fin 20)),
                 MarketChange ''m1'', PoolChange ''p1'' (Inr (Fin 30)),
                 PoolChange ''p0'' (Inr (Fin 5))]"]
    listener_dedup[where ts = "Fin 10" and ms = "[]" and key = "''p1''"
      and ns = "[MarketChange ''m1'', PoolChange ''p1'' (Inr (Fin 20)),
                 MarketChange ''m1'', PoolChange ''p1'' (Inr (Fin 30)),
                 PoolChange ''p0'' (Inr (Fin 5))]"]
    listener_dedup[where ts = "Fin 10" and ms = "[]" and key = "''p0''"
      and ns = "[MarketChange ''m1'', PoolChange ''p1'' (Inr (Fin 20)),
                 MarketChange ''m1'', PoolChange ''p1'' (Inr (Fin 30)),
                 PoolChange ''p0'' (Inr (Fin 5))]"]
  by (auto simp: js_gt_def)

subsection \<open>sell\<close>

text \<open>
  C2. When the mint is tracked with pool keys, the amount is not the number 0 and an
  acquisition value is recorded, and the net change \<open>(value - buyValue) / buyValue\<close>
  is strictly above the stop-loss bound and strictly below the take-profit bound,
  \<^verbatim>\<open>sell\<close> returns false without building any transaction. The worked example is the
  position bought at 100 and valued at 105 under stop loss -10 and take profit 50.
\<close>

theorem sell_hold_band:
  assumes "accounts mnt = Some ta" "poolKeys ta = Some keys" "amount \<noteq> AmountNumber (Fin 0)"
    "buyValue ta = Some bv"
    "js_gt (js_div rt (js_sub rt val bv) bv) (STOP_LOSS cfg)"
    "js_lt (js_div rt (js_sub rt val bv) bv) (TAKE_PROFIT cfg)"
  shows "sell rt cfg swaps accounts accountId mnt amount val = Some (False, 0)"
  unfolding sell_def using assms by (rule sell_loop_hold)

theorem sell_hold_band_witness:
  "js_div exampleRuntime (js_sub exampleRuntime (Fin 105) (Fin 100)) (Fin 100) = Fin (5 / 100)
   \<and> js_gt (Fin (5 / 100)) (STOP_LOSS exampleConfig) \<and> js_lt (Fin (5 / 100)) (TAKE_PROFIT exampleConfig)
   \<and> sell exampleRuntime exampleConfig (\<lambda>k. Confirmed)
        (examplePosition (Some (Fin 100)) (Some exampleKeys)) ''account'' ''mint''
        (AmountBigint 2500) (Fin 105) = Some (False, 0)"
proof -
  have nc: "js_div exampleRuntime (js_sub exampleRuntime (Fin 105) (Fin 100)) (Fin 100) = Fin (5 / 100)"
    by (simp add: exampleRuntime_def)
  have gt: "js_gt (js_div exampleRuntime (js_sub exampleRuntime (Fin 105) (Fin 100)) (Fin 100))
       (STOP_LOSS exampleConfig)"
    by (simp add: nc exampleConfig_def js_gt_def)
  have lt: "js_lt (js_div exampleRuntime (js_sub exampleRuntime (Fin 105) (Fin 100)) (Fin 100))
       (TAKE_PROFIT exampleConfig)"
    by (simp add: nc exampleConfig_def)
  have "sell exampleRuntime exampleConfig (\<lambda>k. Confirmed)
        (examplePosition (Some (Fin 100)) (Some exampleKeys)) ''account'' ''mint''
        (AmountBigint 2500) (Fin 105) = Some (False, 0)"
    by (rule sell_hold_band[where ta = "\<lparr>mint = ''mint'', address = ''ata'', buyValue = Some (Fin 100),
          poolKeys = Some exampleKeys, market = None\<rparr>" and keys = exampleKeys and bv = "Fin 100"])
       (simp_all add: examplePosition_def gt lt)
  with nc gt lt show ?thesis by simp
qed

text \<open>
  C3. When every attempt of a call of \<^verbatim>\<open>sell\<close> ends in an exception (the position
  reaches the swap and every swap raises), the call returns true as soon as the retry
  counter is no longer below \<^verbatim>\<open>MAX_SELL_RETRIES\<close>: after \<open>\<lceil>m\<rceil>\<close> attempts for a finite maximum
  \<open>m\<close> that the counter can reach (\<open>m \<le> 2\<^sup>5\<^sup>3\<close>), and after the one attempt a
  \<^verbatim>\<open>do\<close>-\<^verbatim>\<open>while\<close> loop always makes when the maximum is below 1 or not a number. When the
  counter can never reach the maximum (an infinite maximum, or a finite one above
  \<open>2\<^sup>5\<^sup>3\<close>, where the counter stops growing) the call never returns. So whenever such a
  call returns, it returns true; it never returns false and never raises.
\<close>

theorem sell_retry_exhaustion:
  assumes "accounts mnt = Some ta" "poolKeys ta = Some keys" "amount \<noteq> AmountNumber (Fin 0)"
    "buyValue ta = Some bv"
    "\<not> (js_gt (js_div rt (js_sub rt val bv) bv) (STOP_LOSS cfg)
        \<and> js_lt (js_div rt (js_sub rt val bv) bv) (TAKE_PROFIT cfg))"
    "\<forall>k. swaps k = SwapRaises"
  shows "(\<forall>m. MAX_SELL_RETRIES cfg = Fin m \<and> m \<le> 2 ^ 53 \<longrightarrow>
            sell rt cfg swaps accounts accountId mnt amount val = Some (True, max 1 (nat \<lceil>m\<rceil>)))
       \<and> (MAX_SELL_RETRIES cfg = NaN \<or> MAX_SELL_RETRIES cfg = NegInf \<longrightarrow>
            sell rt cfg swaps accounts accountId mnt amount val = Some (True, 1))
       \<and> (MAX_SELL_RETRIES cfg = PosInf \<or> (\<exists>m. MAX_SELL_RETRIES cfg = Fin m \<and> 2 ^ 53 < m) \<longrightarrow>
            sell rt cfg swaps accounts accountId mnt amount val = None)
       \<and> (\<forall>b n. sell rt cfg swaps accounts accountId mnt amount val = Some (b, n) \<longrightarrow> b)"
proof -
  have fin: "sell rt cfg swaps accounts accountId mnt amount val = Some (True, max 1 (nat \<lceil>m\<rceil>))"
    if "MAX_SELL_RETRIES cfg = Fin m" "m \<le> 2 ^ 53" for m
  proof -
    have "0 < max 1 (nat \<lceil>m\<rceil>)" by simp
    from sell_loop_all_raise[where accounts = accounts and mnt = mnt and swaps = swaps
        and retries = 0 and built = 0, OF assms(1-6) that this]
    show ?thesis by (simp add: sell_def)
  qed
  have once: "sell rt cfg swaps accounts accountId mnt amount val = Some (True, 1)"
    if "MAX_SELL_RETRIES cfg = NaN \<or> MAX_SELL_RETRIES cfg = NegInf"
    using sell_loop_raise_once[where accounts = accounts and mnt = mnt and swaps = swaps
        and retries = 0 and built = 0, OF assms(1-5) _ that] assms(6)
    by (simp add: sell_def)
  have never: "sell rt cfg swaps accounts accountId mnt amount val = None"
    if "MAX_SELL_RETRIES cfg = PosInf \<or> (\<exists>m. MAX_SELL_RETRIES cfg = Fin m \<and> 2 ^ 53 < m)"
    using sell_loop_raise_forever[where accounts = accounts and mnt = mnt and swaps = swaps
        and retries = 0 and built = 0, OF assms(1-6) that]
    by (simp add: sell_def)
  have true: "b" if r: "sell rt cfg swaps accounts accountId mnt amount val = Some (b, n)" for b n
  proof (cases "MAX_SELL_RETRIES cfg")
    case NaN
    with once r show ?thesis by simp
  next
    case NegInf
    with once r show ?thesis by simp
  next
    case PosInf
    with never r show ?thesis by simp
  next
    case (Fin m)
    show ?thesis
    proof (cases "m \<le> 2 ^ 53")
      case True
      from fin[OF Fin True] r show ?thesis by simp
    next
      case False
      with Fin have "\<exists>m. MAX_SELL_RETRIES cfg = Fin m \<and> 2 ^ 53 < m" by auto
      with never r show ?thesis by simp
    qed
  qed
  from fin once never true show ?thesis by blast
qed

theorem sell_retry_exhaustion_witness:
  "\<not> (js_gt (js_div exampleRuntime (js_sub exampleRuntime (Fin 5200) (Fin 100)) (Fin 100))
          (STOP_LOSS exampleConfig)
       \<and> js_lt (js_div exampleRuntime (js_sub exampleRuntime (Fin 5200) (Fin 100)) (Fin 100))
          (TAKE_PROFIT exampleConfig))
   \<and> MAX_SELL_RETRIES exampleConfig = Fin 3 \<and> (3 :: real) \<le> 2 ^ 53
   \<and> sell exampleRuntime exampleConfig (\<lambda>k. SwapRaises)
        (examplePosition (Some (Fin 100)) (Some exampleKeys)) ''account'' ''mint''
        (AmountBigint 2500) (Fin 5200) = Some (True, 3)"
proof -
  have out: "\<not> (js_gt (js_div exampleRuntime (js_sub exampleRuntime (Fin 5200) (Fin 100)) (Fin 100))
          (STOP_LOSS exampleConfig)
       \<and> js_lt (js_div exampleRuntime (js_sub exampleRuntime (Fin 5200) (Fin 100)) (Fin 100))
          (TAKE_PROFIT exampleConfig))"
    by (simp add: exampleRuntime_def exampleConfig_def js_gt_def)
  have fin: "MAX_SELL_RETRIES exampleConfig = Fin 3" by (simp add: exampleConfig_def)
  have le: "(3 :: real) \<le> 2 ^ 53" by simp
  have "\<forall>m. MAX_SELL_RETRIES exampleConfig = Fin m \<and> m \<le> 2 ^ 53 \<longrightarrow>
      sell exampleRuntime exampleConfig (\<lambda>k. SwapRaises)
        (examplePosition (Some (Fin 100)) (Some exampleKeys)) ''account'' ''mint''
        (AmountBigint 2500) (Fin 5200) = Some (True, max 1 (nat \<lceil>m\<rceil>))"
    using sell_retry_exhaustion[where ta = "\<lparr>mint = ''mint'', address = ''ata'',
          buyValue = Some (Fin 100), poolKeys = Some exampleKeys, market = None\<rparr>"
          and keys = exampleKeys and bv = "Fin 100" and rt = exampleRuntime
          and cfg = exampleConfig and swaps = "\<lambda>k. SwapRaises" and accountId = "''account''"
          and accounts = "examplePosition (Some (Fin 100)) (Some exampleKeys)"
          and mnt = "''mint''" and amount = "AmountBigint 2500" and val = "Fin 5200"]
      out
    by (simp add: examplePosition_def)
  with fin le have "sell exampleRuntime exampleConfig (\<lambda>k. SwapRaises)
        (examplePosition (Some (Fin 100)) (Some exampleKeys)) ''account'' ''mint''
        (AmountBigint 2500) (Fin 5200) = Some (True, max 1 (nat \<lceil>3 :: real\<rceil>))"
    by blast
  with out fin le show ?thesis by simp
qed

text \<open>
  C4 does not hold of the code. For a tracked mint without pool keys, a zero amount and
  three sell retries, \<^verbatim>\<open>continue\<close> leads to the loop condition with the retry counter
  still 0, the body runs again on the same state, and so on: \<^verbatim>\<open>sell\<close> never returns.
\<close>

theorem sell_without_pool_keys_never_returns:
  "sell exampleRuntime exampleConfig (\<lambda>k. Confirmed) (examplePosition None None)
     ''account'' ''mint'' (AmountNumber (Fin 0)) (Fin 1) = None"
  unfolding sell_def
  by (rule sell_loop_no_keys_spins[where ta = "\<lparr>mint = ''mint'', address = ''ata'',
        buyValue = None, poolKeys = None, market = None\<rparr>"])
     (simp_all add: examplePosition_def exampleConfig_def)

text \<open>
  C10. When the mint is tracked with pool keys, the amount is not the number 0 and no
  acquisition value is recorded, \<^verbatim>\<open>sell\<close> returns true without building any transaction.
  Whatever calls of \<^verbatim>\<open>init\<close>, \<^verbatim>\<open>processOpenBookMarket\<close> and \<^verbatim>\<open>buy\<close> have written the map, no
  entry has an acquisition value; hence for every tracked mint with pool keys \<^verbatim>\<open>sell\<close>
  returns true without building any transaction, a successful buy included.
\<close>

theorem sell_without_buyValue:
  "(accounts mnt = Some ta \<and> poolKeys ta = Some keys \<and> amount \<noteq> AmountNumber (Fin 0)
      \<and> buyValue ta = None \<longrightarrow>
      sell rt cfg swaps accounts accountId mnt amount val = Some (True, 0))
   \<and> (accountsAfterWrites ata ws mnt = Some ta \<longrightarrow> buyValue ta = None)
   \<and> (accountsAfterWrites ata ws mnt = Some ta \<and> poolKeys ta = Some keys \<longrightarrow>
        sell rt cfg swaps (accountsAfterWrites ata ws) accountId mnt amount val = Some (True, 0))"
proof -
  have a: "accounts mnt = Some ta \<and> poolKeys ta = Some keys \<and> amount \<noteq> AmountNumber (Fin 0)
      \<and> buyValue ta = None \<longrightarrow>
      sell rt cfg swaps accounts accountId mnt amount val = Some (True, 0)"
    using sell_loop_no_buyValue[of accounts mnt ta keys rt cfg swaps amount val 0 0]
    by (simp add: sell_def)
  have b: "accountsAfterWrites ata ws mnt = Some ta \<longrightarrow> buyValue ta = None"
    using noBuyValue_writes[of ata ws] by (auto simp: noBuyValue_def)
  have c: "accountsAfterWrites ata ws mnt = Some ta \<and> poolKeys ta = Some keys \<longrightarrow>
        sell rt cfg swaps (accountsAfterWrites ata ws) accountId mnt amount val = Some (True, 0)"
    using b sell_loop_no_buyValue[of "accountsAfterWrites ata ws" mnt ta keys rt cfg swaps amount val 0 0]
    by (simp add: sell_def)
  from a b c show ?thesis by blast
qed

theorem sell_without_buyValue_witness:
  "accountsAfterWrites (\<lambda>m. ''ata'')
     [BuyCall exampleRuntime noFaults newTradingProtection
        (exampleBuyWorld (\<lambda>k. Inr ''signature'') (Inr False)) \<lparr>raw = ''100000000''\<rparr> ''pool''
        examplePool] ''mint'' =
     Some \<lparr>mint = ''mint'', address = ''ata'', buyValue = None, poolKeys = Some exampleKeys,
           market = Some \<lparr>bids = ''bids'', asks = ''asks'', eventQueue = ''queue''\<rparr>\<rparr>
   \<and> sell exampleRuntime exampleConfig (\<lambda>k. Confirmed)
        (accountsAfterWrites (\<lambda>m. ''ata'')
           [BuyCall exampleRuntime noFaults newTradingProtection
              (exampleBuyWorld (\<lambda>k. Inr ''signature'') (Inr False)) \<lparr>raw = ''100000000''\<rparr> ''pool''
              examplePool])
        ''account'' ''mint'' (AmountBigint 2500) (Fin 105) = Some (True, 0)"
proof -
  have bought: "accountsAfterWrites (\<lambda>m. ''ata'')
     [BuyCall exampleRuntime noFaults newTradingProtection
        (exampleBuyWorld (\<lambda>k. Inr ''signature'') (Inr False)) \<lparr>raw = ''100000000''\<rparr> ''pool''
        examplePool] ''mint'' =
     Some \<lparr>mint = ''mint'', address = ''ata'', buyValue = None, poolKeys = Some exampleKeys,
           market = Some \<lparr>bids = ''bids'', asks = ''asks'', eventQueue = ''queue''\<rparr>\<rparr>"
    by (simp add: accountsAfterWrites_def buy_def buyEnds_def exampleBuyWorld_def examplePool_def
      exampleMarket_def saveTokenAccount_def checkTradeSafety_def checkTradeSafety_body_def
      getAmountInSol_def getTokenLiquidity_def calculatePriceImpact_def noFaults_def
      newTradingProtection_def exampleRuntime_def js_gt_def accepted_def createPoolKeys_def
      exampleKeys_def retry.simps Let_def)
  from bought sell_without_buyValue[where ata = "\<lambda>m. ''ata''" and mnt = "''mint''"
      and keys = exampleKeys and rt = exampleRuntime and cfg = exampleConfig
      and swaps = "\<lambda>k. Confirmed" and accountId = "''account''" and amount = "AmountBigint 2500"
      and val = "Fin 105"
      and ta = "\<lparr>mint = ''mint'', address = ''ata'', buyValue = None, poolKeys = Some exampleKeys,
           market = Some \<lparr>bids = ''bids'', asks = ''asks'', eventQueue = ''queue''\<rparr>\<rparr>"
      and ws = "[BuyCall exampleRuntime noFaults newTradingProtection
        (exampleBuyWorld (\<lambda>k. Inr ''signature'') (Inr False)) \<lparr>raw = ''100000000''\<rparr> ''pool''
        examplePool]"]
  show ?thesis by simp
qed

subsection \<open>buy\<close>

text \<open>
  C8, as stated, fails: when the first three submissions raise and the fourth succeeds,
  \<^verbatim>\<open>buy\<close> submits four times and returns normally.
\<close>

theorem buy_fourth_submission_counterexample:
  "submissions (buy exampleRuntime noFaults newTradingProtection
      (exampleBuyWorld (\<lambda>k. if k < 3 then Inl (Exn ''send failed'') else Inr ''signature'') (Inr False))
      (\<lambda>m. ''ata'') \<lparr>raw = ''100000000''\<rparr> Map.empty ''pool'' examplePool) = 4
   \<and> returned (buy exampleRuntime noFaults newTradingProtection
      (exampleBuyWorld (\<lambda>k. if k < 3 then Inl (Exn ''send failed'') else Inr ''signature'') (Inr False))
      (\<lambda>m. ''ata'') \<lparr>raw = ''100000000''\<rparr> Map.empty ''pool'' examplePool) = Inr ()"
  by (simp add: buy_def buyEnds_def exampleBuyWorld_def examplePool_def
      exampleMarket_def saveTokenAccount_def checkTradeSafety_def checkTradeSafety_body_def
      getAmountInSol_def getTokenLiquidity_def calculatePriceImpact_def noFaults_def
      newTradingProtection_def exampleRuntime_def js_gt_def accepted_def createPoolKeys_def
      retry.simps Let_def)

text \<open>
  C8, amended. A call of \<^verbatim>\<open>buy\<close> submits the transaction exactly when the steps before
  the submission succeed. It then submits again after every submission that raised,
  until one succeeds or four have been made: at most four submissions (the first and up
  to three retries), every one but the last raised, a last one that raised is the
  fourth, and three failures in a row are followed by a fourth submission. Before each
  further submission it sleeps 1000 ms. The confirmation is asked for once, exactly when
  the last submission succeeded; \<^verbatim>\<open>buy\<close> then returns normally exactly when the
  confirmation reports no error and raises otherwise, without submitting again. When
  all four submissions raise, \<^verbatim>\<open>buy\<close> raises without asking for a confirmation.
\<close>

theorem buy_submission_retry:
  "(0 < submissions (buy rt fl tp w ata q accounts accountId accountData) \<longleftrightarrow>
      reachesSubmission rt fl tp w q accounts accountData)
   \<and> submissions (buy rt fl tp w ata q accounts accountId accountData) \<le> 4
   \<and> (\<forall>k. k < submissions (buy rt fl tp w ata q accounts accountId accountData) - 1 \<longrightarrow>
          isl (sendRawTransaction w k))
   \<and> (0 < submissions (buy rt fl tp w ata q accounts accountId accountData)
        \<and> isl (sendRawTransaction w
                 (submissions (buy rt fl tp w ata q accounts accountId accountData) - 1)) \<longrightarrow>
        submissions (buy rt fl tp w ata q accounts accountId accountData) = 4)
   \<and> (reachesSubmission rt fl tp w q accounts accountData
        \<and> (\<forall>k. k < 3 \<longrightarrow> isl (sendRawTransaction w k)) \<longrightarrow>
        submissions (buy rt fl tp w ata q accounts accountId accountData) = 4)
   \<and> sleeps (buy rt fl tp w ata q accounts accountId accountData) =
       replicate (submissions (buy rt fl tp w ata q accounts accountId accountData) - 1) 1000
   \<and> confirmations (buy rt fl tp w ata q accounts accountId accountData) =
       (if 0 < submissions (buy rt fl tp w ata q accounts accountId accountData)
           \<and> \<not> isl (sendRawTransaction w
                 (submissions (buy rt fl tp w ata q accounts accountId accountData) - 1))
        then 1 else 0)
   \<and> (confirmations (buy rt fl tp w ata q accounts accountId accountData) = 1 \<longrightarrow>
        (returned (buy rt fl tp w ata q accounts accountId accountData) = Inr ()
           \<longleftrightarrow> confirmTransaction w = Inr False))
   \<and> (confirmations (buy rt fl tp w ata q accounts accountId accountData) = 1
        \<and> confirmTransaction w \<noteq> Inr False \<longrightarrow>
        isl (returned (buy rt fl tp w ata q accounts accountId accountData)))
   \<and> (0 < submissions (buy rt fl tp w ata q accounts accountId accountData)
        \<and> confirmations (buy rt fl tp w ata q accounts accountId accountData) = 0 \<longrightarrow>
        isl (returned (buy rt fl tp w ata q accounts accountId accountData)))"
proof -
  obtain r n sl where R: "retry (sendRawTransaction w) 3 1000 0 = (r, n, sl)"
    by (cases "retry (sendRawTransaction w) 3 1000 0") auto
  show ?thesis
    by (rule outcome_props[OF retry_three[OF R] buy_shape[OF R]])
qed

theorem buy_submission_retry_witness:
  "reachesSubmission exampleRuntime noFaults newTradingProtection
      (exampleBuyWorld (\<lambda>k. Inr ''signature'') (Inr True)) \<lparr>raw = ''100000000''\<rparr> Map.empty
      examplePool
   \<and> confirmTransaction (exampleBuyWorld (\<lambda>k. Inr ''signature'') (Inr True)) \<noteq> Inr False
   \<and> submissions (buy exampleRuntime noFaults newTradingProtection
      (exampleBuyWorld (\<lambda>k. Inr ''signature'') (Inr True))
      (\<lambda>m. ''ata'') \<lparr>raw = ''100000000''\<rparr> Map.empty ''pool'' examplePool) = 1
   \<and> confirmations (buy exampleRuntime noFaults newTradingProtection
      (exampleBuyWorld (\<lambda>k. Inr ''signature'') (Inr True))
      (\<lambda>m. ''ata'') \<lparr>raw = ''100000000''\<rparr> Map.empty ''pool'' examplePool) = 1
   \<and> isl (returned (buy exampleRuntime noFaults newTradingProtection
      (exampleBuyWorld (\<lambda>k. Inr ''signature'') (Inr True))
      (\<lambda>m. ''ata'') \<lparr>raw = ''100000000''\<rparr> Map.empty ''pool'' examplePool))
   \<and> reachesSubmission exampleRuntime noFaults newTradingProtection
      (exampleBuyWorld (\<lambda>k. Inl (Exn ''send failed'')) (Inr False)) \<lparr>raw = ''100000000''\<rparr>
      Map.empty examplePool
   \<and> isl (sendRawTransaction (exampleBuyWorld (\<lambda>k. Inl (Exn ''send failed'')) (Inr False)) 0)
   \<and> isl (sendRawTransaction (exampleBuyWorld (\<lambda>k. Inl (Exn ''send failed'')) (Inr False)) 1)
   \<and> isl (sendRawTransaction (exampleBuyWorld (\<lambda>k. Inl (Exn ''send failed'')) (Inr False)) 2)
   \<and> submissions (buy exampleRuntime noFaults newTradingProtection
      (exampleBuyWorld (\<lambda>k. Inl (Exn ''send failed'')) (Inr False))
      (\<lambda>m. ''ata'') \<lparr>raw = ''100000000''\<rparr> Map.empty ''pool'' examplePool) = 4
   \<and> confirmations (buy exampleRuntime noFaults newTradingProtection
      (exampleBuyWorld (\<lambda>k. Inl (Exn ''send failed'')) (Inr False))
      (\<lambda>m. ''ata'') \<lparr>raw = ''100000000''\<rparr> Map.empty ''pool'' examplePool) = 0
   \<and> isl (returned (buy exampleRuntime noFaults newTradingProtection
      (exampleBuyWorld (\<lambda>k. Inl (Exn ''send failed'')) (Inr False))
      (\<lambda>m. ''ata'') \<lparr>raw = ''100000000''\<rparr> Map.empty ''pool'' examplePool))"
proof -
  have reach: "reachesSubmission exampleRuntime noFaults newTradingProtection
      (exampleBuyWorld send conf) \<lparr>raw = ''100000000''\<rparr> Map.empty examplePool" for send conf
    by (simp add: reachesSubmission_def exampleBuyWorld_def examplePool_def
      checkTradeSafety_def checkTradeSafety_body_def
      getAmountInSol_def getTokenLiquidity_def calculatePriceImpact_def noFaults_def
      newTradingProtection_def exampleRuntime_def js_gt_def accepted_def Let_def)
  have s1: "sendRawTransaction (exampleBuyWorld (\<lambda>k. Inr ''signature'') (Inr True)) k = Inr ''signature''"
    for k by (simp add: exampleBuyWorld_def)
  have c1: "confirmTransaction (exampleBuyWorld (\<lambda>k. Inr ''signature'') (Inr True)) = Inr True"
    by (simp add: exampleBuyWorld_def)
  have s2: "sendRawTransaction (exampleBuyWorld (\<lambda>k. Inl (Exn ''send failed'')) (Inr False)) k
      = Inl (Exn ''send failed'')" for k
    by (simp add: exampleBuyWorld_def)
  note t1 = buy_submission_retry[of exampleRuntime noFaults newTradingProtection
      "exampleBuyWorld (\<lambda>k. Inr ''signature'') (Inr True)" "\<lambda>m. ''ata''" "\<lparr>raw = ''100000000''\<rparr>"
      Map.empty "''pool''" examplePool]
  note t2 = buy_submission_retry[of exampleRuntime noFaults newTradingProtection
      "exampleBuyWorld (\<lambda>k. Inl (Exn ''send failed'')) (Inr False)" "\<lambda>m. ''ata''"
      "\<lparr>raw = ''100000000''\<rparr>" Map.empty "''pool''" examplePool]
  let ?o1 = "buy exampleRuntime noFaults newTradingProtection
      (exampleBuyWorld (\<lambda>k. Inr ''signature'') (Inr True))
      (\<lambda>m. ''ata'') \<lparr>raw = ''100000000''\<rparr> Map.empty ''pool'' examplePool"
  let ?o2 = "buy exampleRuntime noFaults newTradingProtection
      (exampleBuyWorld (\<lambda>k. Inl (Exn ''send failed'')) (Inr False))
      (\<lambda>m. ''ata'') \<lparr>raw = ''100000000''\<rparr> Map.empty ''pool'' examplePool"
  let ?w1 = "exampleBuyWorld (\<lambda>k. Inr ''signature'') (Inr True)"
  let ?w2 = "exampleBuyWorld (\<lambda>k. Inl (Exn ''send failed'')) (Inr False)"
  from t1 have a1: "0 < submissions ?o1 \<longleftrightarrow>
      reachesSubmission exampleRuntime noFaults newTradingProtection ?w1
        \<lparr>raw = ''100000000''\<rparr> Map.empty examplePool" by blast
  from t1 have b1: "\<forall>k. k < submissions ?o1 - 1 \<longrightarrow> isl (sendRawTransaction ?w1 k)" by blast
  from t1 have d1: "confirmations ?o1 =
       (if 0 < submissions ?o1 \<and> \<not> isl (sendRawTransaction ?w1 (submissions ?o1 - 1))
        then 1 else 0)" by blast
  from t1 have e1: "confirmations ?o1 = 1 \<and> confirmTransaction ?w1 \<noteq> Inr False \<longrightarrow>
        isl (returned ?o1)" by blast
  from a1 reach have pos1: "0 < submissions ?o1" by blast
  have sub1: "submissions ?o1 = 1"
  proof (rule ccontr)
    assume "submissions ?o1 \<noteq> 1"
    with pos1 have "0 < submissions ?o1 - 1" by arith
    with b1 have "isl (sendRawTransaction ?w1 0)" by blast
    then show False by (simp only: s1 sum.disc)
  qed
  have ok1: "\<not> isl (sendRawTransaction ?w1 (submissions ?o1 - 1))" by (simp only: s1 sum.disc not_False_eq_True)
  from d1 pos1 ok1 have conf1: "confirmations ?o1 = 1" by (simp only: simp_thms if_True)
  have ne1: "confirmTransaction ?w1 \<noteq> Inr False" by (simp add: c1)
  from e1 conf1 ne1 have ret1: "isl (returned ?o1)" by blast
  from t2 have a2: "reachesSubmission exampleRuntime noFaults newTradingProtection ?w2
        \<lparr>raw = ''100000000''\<rparr> Map.empty examplePool
        \<and> (\<forall>k. k < 3 \<longrightarrow> isl (sendRawTransaction ?w2 k)) \<longrightarrow> submissions ?o2 = 4" by blast
  from t2 have d2: "confirmations ?o2 =
       (if 0 < submissions ?o2 \<and> \<not> isl (sendRawTransaction ?w2 (submissions ?o2 - 1))
        then 1 else 0)" by blast
  from t2 have e2: "0 < submissions ?o2 \<and> confirmations ?o2 = 0 \<longrightarrow> isl (returned ?o2)"
    by blast
  have all2: "\<forall>k. k < 3 \<longrightarrow> isl (sendRawTransaction ?w2 k)" by (simp add: s2)
  from a2 reach all2 have sub2: "submissions ?o2 = 4" by blast
  have bad2: "isl (sendRawTransaction ?w2 (submissions ?o2 - 1))" by (simp add: s2)
  from d2 bad2 have conf2: "confirmations ?o2 = 0" by simp
  from e2 sub2 conf2 have ret2: "isl (returned ?o2)" by simp
  from reach have r1: "reachesSubmission exampleRuntime noFaults newTradingProtection ?w1
        \<lparr>raw = ''100000000''\<rparr> Map.empty examplePool"
    and r2: "reachesSubmission exampleRuntime noFaults newTradingProtection ?w2
        \<lparr>raw = ''100000000''\<rparr> Map.empty examplePool" by blast+
  have f0: "isl (sendRawTransaction ?w2 0)" and f1: "isl (sendRawTransaction ?w2 1)"
    and f2: "isl (sendRawTransaction ?w2 2)" by (simp_all add: s2)
  from r1 ne1 sub1 conf1 ret1 r2 f0 f1 f2 sub2 conf2 ret2 show ?thesis by (intro conjI)
qed


end
